theory Spec2Isabelle
  imports Complex_Main "HOL-Library.Sublist"
begin

section \<open>Turn governor (createTurnGovernor)\<close>

text \<open>
  The governor is a closure over three mutable variables (\<open>turnsUsed\<close>, \<open>exhausted\<close>,
  \<open>warningFired\<close>) and its options. The options are a record, the variables are a second
  record that every operation takes and returns. The two optional callbacks are observers:
  an invocation is appended to \<open>fired\<close> with the arguments it received, and a callback that
  was not supplied is \<open>False\<close> in the options. JavaScript numbers are integers here, except
  the warning threshold, a fraction.
\<close>

record governor_options =
  maxTurns :: int
  has_onBudgetExhausted :: bool
  warningThreshold :: rat
  has_onBudgetWarning :: bool

datatype governor_callback =
    BudgetWarning int int int
  | BudgetExhausted int int

record governor =
  turnsUsed :: int
  exhausted :: bool
  warningFired :: bool
  fired :: "governor_callback list"

definition new_governor :: governor where
  "new_governor = \<lparr>turnsUsed = 0, exhausted = False, warningFired = False, fired = []\<rparr>"

text \<open>
  \<open>remaining / maxTurns <= warningThreshold\<close> is a floating point division. With
  \<open>maxTurns = 0\<close> the quotient is \<open>+Infinity\<close>, \<open>-Infinity\<close> or \<open>NaN\<close>, and only
  \<open>-Infinity\<close> is below a finite threshold.
\<close>

definition below_threshold :: "governor_options \<Rightarrow> int \<Rightarrow> bool" where
  "below_threshold opts remaining =
     (if maxTurns opts = 0 then remaining < 0
      else of_int remaining / of_int (maxTurns opts) \<le> warningThreshold opts)"

definition checkWarning :: "governor_options \<Rightarrow> governor \<Rightarrow> governor" where
  "checkWarning opts g =
     (if warningFired g \<or> \<not> has_onBudgetWarning opts then g
      else let remaining = maxTurns opts - turnsUsed g in
        if below_threshold opts remaining
        then g\<lparr>warningFired := True,
               fired := fired g @ [BudgetWarning (turnsUsed g) (maxTurns opts) remaining]\<rparr>
        else g)"

definition recordTurns :: "governor_options \<Rightarrow> int \<Rightarrow> governor \<Rightarrow> bool \<times> governor" where
  "recordTurns opts count g =
     (let g1 = checkWarning opts (g\<lparr>turnsUsed := turnsUsed g + count\<rparr>) in
      if turnsUsed g1 \<ge> maxTurns opts
      then (False,
            g1\<lparr>exhausted := True,
                fired := (if has_onBudgetExhausted opts
                          then fired g1 @ [BudgetExhausted (turnsUsed g1) (maxTurns opts)]
                          else fired g1)\<rparr>)
      else (True, g1))"

definition allocateCycleBudget :: "governor_options \<Rightarrow> int \<Rightarrow> governor \<Rightarrow> int" where
  "allocateCycleBudget opts perCycleCap g =
     (let remaining = maxTurns opts - turnsUsed g in
      if remaining \<le> 0 then 0 else min perCycleCap remaining)"

definition canSpawn :: "governor_options \<Rightarrow> governor \<Rightarrow> bool" where
  "canSpawn opts g \<longleftrightarrow> \<not> exhausted g \<and> turnsUsed g < maxTurns opts"

definition reset :: "governor \<Rightarrow> governor" where
  "reset g = g\<lparr>turnsUsed := 0, exhausted := False, warningFired := False\<rparr>"

text \<open>A run of \<open>recordTurns\<close> calls with no \<open>reset\<close> in between: one epoch.\<close>

fun record_all :: "governor_options \<Rightarrow> int list \<Rightarrow> governor \<Rightarrow> governor" where
  "record_all opts [] g = g"
| "record_all opts (n # ns) g = record_all opts ns (snd (recordTurns opts n g))"

definition exhausted_calls :: "governor \<Rightarrow> governor_callback list" where
  "exhausted_calls g = filter (\<lambda>c. case c of BudgetExhausted _ _ \<Rightarrow> True | _ \<Rightarrow> False) (fired g)"

definition test_options :: governor_options where
  "test_options = \<lparr>maxTurns = 10, has_onBudgetExhausted = True,
                    warningThreshold = 1 / 10, has_onBudgetWarning = False\<rparr>"


section \<open>Event delivery (createEventDelivery)\<close>

text \<open>
  \<open>action\<close> and \<open>confirm\<close> are effects supplied by the caller. Each is a function on a
  state \<open>'w\<close> of the caller's world that either returns or throws. The delivery object adds
  its two counters, and \<open>trace\<close> lists what \<open>deliver\<close> did in order: every call of the
  action, every sleep with its delay, every call of \<open>onDelivered\<close> and \<open>onExhausted\<close>
  (with the attempt count passed). The two callbacks are optional; they are observers and
  do not throw.
\<close>

datatype 'a attempt = Returned 'a | Thrown

datatype delivery_event =
    ActionCalled
  | ConfirmCalled
  | Slept int
  | OnDelivered
  | OnExhausted int

record 'w delivery_options =
  action :: "'w \<Rightarrow> unit attempt \<times> 'w"
  maxRetries :: int
  baseDelayMs :: int
  confirm :: "('w \<Rightarrow> bool attempt \<times> 'w) option"
  has_onExhausted :: bool
  has_onDelivered :: bool

record 'w delivery =
  world :: 'w
  deliveredCount :: nat
  failedCount :: nat
  trace :: "delivery_event list"

definition delivered :: "'w delivery_options \<Rightarrow> 'w delivery \<Rightarrow> bool \<times> 'w delivery" where
  "delivered opts s =
     (True, s\<lparr>deliveredCount := deliveredCount s + 1,
              trace := (if has_onDelivered opts then trace s @ [OnDelivered] else trace s)\<rparr>)"

definition exhausted_after ::
  "'w delivery_options \<Rightarrow> int \<Rightarrow> 'w delivery \<Rightarrow> bool \<times> 'w delivery" where
  "exhausted_after opts attempts s =
     (False, s\<lparr>failedCount := failedCount s + 1,
               trace := (if has_onExhausted opts then trace s @ [OnExhausted attempts]
                         else trace s)\<rparr>)"

text \<open>The body of the \<open>try\<close> block: \<open>None\<close> when an exception reached the \<open>catch\<close>.\<close>

definition try_once :: "'w delivery_options \<Rightarrow> 'w delivery \<Rightarrow> bool option \<times> 'w delivery" where
  "try_once opts s =
     (case action opts (world s) of
        (Thrown, w1) \<Rightarrow> (None, s\<lparr>world := w1, trace := trace s @ [ActionCalled]\<rparr>)
      | (Returned _, w1) \<Rightarrow>
          (let s1 = s\<lparr>world := w1, trace := trace s @ [ActionCalled]\<rparr> in
           case confirm opts of
             None \<Rightarrow> (Some True, s1)
           | Some c \<Rightarrow>
               (case c w1 of
                  (Thrown, w2) \<Rightarrow> (None, s1\<lparr>world := w2, trace := trace s1 @ [ConfirmCalled]\<rparr>)
                | (Returned b, w2) \<Rightarrow>
                    (Some b, s1\<lparr>world := w2, trace := trace s1 @ [ConfirmCalled]\<rparr>))))"

definition backoff :: "'w delivery_options \<Rightarrow> int \<Rightarrow> 'w delivery \<Rightarrow> 'w delivery" where
  "backoff opts attempt s =
     (if attempt < maxRetries opts
      then s\<lparr>trace := trace s @ [Slept (baseDelayMs opts * 2 ^ nat attempt)]\<rparr>
      else s)"

function deliver_from :: "'w delivery_options \<Rightarrow> int \<Rightarrow> 'w delivery \<Rightarrow> bool \<times> 'w delivery" where
  "deliver_from opts attempt s =
     (if attempt \<le> maxRetries opts then
        (case try_once opts s of
           (Some True, s1) \<Rightarrow> delivered opts s1
         | (Some False, s1) \<Rightarrow> deliver_from opts (attempt + 1) (backoff opts attempt s1)
         | (None, s1) \<Rightarrow>
             if attempt = maxRetries opts then exhausted_after opts (attempt + 1) s1
             else deliver_from opts (attempt + 1) (backoff opts attempt s1))
      else exhausted_after opts (maxRetries opts + 1) s)"
  by pat_completeness auto
termination
  by (relation "measure (\<lambda>(opts, attempt, s). nat (maxRetries opts + 1 - attempt))") auto

declare deliver_from.simps [simp del]

definition deliver :: "'w delivery_options \<Rightarrow> 'w delivery \<Rightarrow> bool \<times> 'w delivery" where
  "deliver opts s = deliver_from opts 0 s"

definition new_delivery :: "'w \<Rightarrow> 'w delivery" where
  "new_delivery w = \<lparr>world = w, deliveredCount = 0, failedCount = 0, trace = []\<rparr>"

definition always_throws :: "('w \<Rightarrow> unit attempt \<times> 'w) \<Rightarrow> bool" where
  "always_throws a \<longleftrightarrow> (\<forall>w. fst (a w) = Thrown)"

definition failing_action :: "nat \<Rightarrow> unit attempt \<times> nat" where
  "failing_action w = (Thrown, Suc w)"

definition failing_options :: "nat delivery_options" where
  "failing_options = \<lparr>action = failing_action, maxRetries = 2, baseDelayMs = 10,
     confirm = None, has_onExhausted = True, has_onDelivered = False\<rparr>"

definition action_calls :: "'w delivery \<Rightarrow> nat" where
  "action_calls s = length (filter (\<lambda>e. e = ActionCalled) (trace s))"

definition onExhausted_calls :: "'w delivery \<Rightarrow> int list" where
  "onExhausted_calls s = concat (map (\<lambda>e. case e of OnExhausted n \<Rightarrow> [n] | _ \<Rightarrow> []) (trace s))"

definition sleeps :: "'w delivery \<Rightarrow> int list" where
  "sleeps s = concat (map (\<lambda>e. case e of Slept d \<Rightarrow> [d] | _ \<Rightarrow> []) (trace s))"

text \<open>The delays of the sleeps after the attempts \<open>a, ..., m - 1\<close>.\<close>

definition delays_from :: "int \<Rightarrow> int \<Rightarrow> int \<Rightarrow> int list" where
  "delays_from base a m = map (\<lambda>i. base * 2 ^ i) [nat a..<nat m]"


section \<open>Resilient watcher (createResilientWatcher)\<close>

text \<open>
  The watcher closes over \<open>watchers\<close>, \<open>heartbeatTimer\<close>, \<open>isActive\<close> and \<open>_reinitCount\<close>.
  The record below holds these four variables together with the part of the environment
  they interact with: \<open>fs\<close>, the directories that exist (exact path strings; a directory
  is below \<open>root\<close> when its path starts with \<open>root/\<close>), \<open>pending\<close>, the timers armed in
  the event loop and not yet fired or cleared, and \<open>changes\<close>, the calls of \<open>onChange\<close> in
  order. \<open>setTimeout\<close> returns a fresh handle; \<open>clearTimeout\<close> removes the handle from
  \<open>pending\<close>. An exception thrown by \<open>onChange\<close> is caught and dropped by the code, so the
  callback is an observer here.
\<close>

record watcher_options =
  directories :: "string list"
  heartbeatTimeoutMs :: int
  recursive :: bool
  platform_linux :: bool

record watcher =
  fs :: "string list"
  watchers :: "string list"
  heartbeatTimer :: "nat option"
  pending :: "nat list"
  next_handle :: nat
  isActive :: bool
  reinitCount :: nat
  changes :: "string list"

definition new_watcher :: "string list \<Rightarrow> watcher" where
  "new_watcher existing = \<lparr>fs = existing, watchers = [], heartbeatTimer = None, pending = [],
     next_handle = 0, isActive = False, reinitCount = 0, changes = []\<rparr>"

definition ensureDirectories :: "watcher_options \<Rightarrow> watcher \<Rightarrow> watcher" where
  "ensureDirectories opts w =
     w\<lparr>fs := foldl (\<lambda>f dir. if dir \<in> set f then f else f @ [dir]) (fs w) (directories opts)\<rparr>"

text \<open>\<open>readdirSync\<close> throws on a directory that vanished; the code then returns the root alone.\<close>

definition walkDirs :: "string list \<Rightarrow> string \<Rightarrow> string list" where
  "walkDirs f rootDir =
     (if rootDir \<in> set f
      then rootDir # filter (\<lambda>d. strict_prefix (rootDir @ ''/'') d) f
      else [rootDir])"

text \<open>\<open>fs.watch\<close> throws on a missing directory; the code catches it and adds no watcher.\<close>

definition watchSingle :: "string \<Rightarrow> watcher \<Rightarrow> watcher" where
  "watchSingle dir w = (if dir \<in> set (fs w) then w\<lparr>watchers := watchers w @ [dir]\<rparr> else w)"

definition teardownWatchers :: "watcher \<Rightarrow> watcher" where
  "teardownWatchers w = w\<lparr>watchers := []\<rparr>"

definition initWatchers :: "watcher_options \<Rightarrow> watcher \<Rightarrow> watcher" where
  "initWatchers opts w =
     (let needsManualRecursion = recursive opts \<and> platform_linux opts in
      foldl (\<lambda>w1 dir.
               if needsManualRecursion
               then foldl (\<lambda>w2 subdir. watchSingle subdir w2) w1 (walkDirs (fs w1) dir)
               else watchSingle dir w1)
            (teardownWatchers w) (directories opts))"

definition clearTimeout :: "nat \<Rightarrow> watcher \<Rightarrow> watcher" where
  "clearTimeout h w = w\<lparr>pending := removeAll h (pending w)\<rparr>"

definition resetHeartbeat :: "watcher_options \<Rightarrow> watcher \<Rightarrow> watcher" where
  "resetHeartbeat opts w =
     (if heartbeatTimeoutMs opts \<le> 0 \<or> \<not> isActive w then w
      else let w1 = (case heartbeatTimer w of Some h \<Rightarrow> clearTimeout h w | None \<Rightarrow> w) in
        w1\<lparr>heartbeatTimer := Some (next_handle w1),
            pending := pending w1 @ [next_handle w1],
            next_handle := Suc (next_handle w1)\<rparr>)"

text \<open>The function passed to \<open>setTimeout\<close> in \<open>resetHeartbeat\<close>.\<close>

definition heartbeat_expired :: "watcher_options \<Rightarrow> watcher \<Rightarrow> watcher" where
  "heartbeat_expired opts w =
     (if \<not> isActive w then w
      else resetHeartbeat opts
             (initWatchers opts (ensureDirectories opts (w\<lparr>reinitCount := Suc (reinitCount w)\<rparr>))))"

definition watchCallback :: "watcher_options \<Rightarrow> string \<Rightarrow> watcher \<Rightarrow> watcher" where
  "watchCallback opts dir w =
     (let w1 = resetHeartbeat opts w in w1\<lparr>changes := changes w1 @ [dir]\<rparr>)"

definition start :: "watcher_options \<Rightarrow> watcher \<Rightarrow> watcher" where
  "start opts w =
     resetHeartbeat opts
       (initWatchers opts (ensureDirectories opts (w\<lparr>isActive := True, reinitCount := 0\<rparr>)))"

definition stop :: "watcher \<Rightarrow> watcher" where
  "stop w =
     (let w1 = teardownWatchers (w\<lparr>isActive := False\<rparr>) in
      case heartbeatTimer w1 of
        Some h \<Rightarrow> (clearTimeout h w1)\<lparr>heartbeatTimer := None\<rparr>
      | None \<Rightarrow> w1)"

text \<open>
  What can happen to a watcher: a call of one of its three methods, an operating system
  event delivered to an open watcher, an armed timer firing, and a directory removed or
  created by someone else.
\<close>

datatype watcher_event =
    Start
  | Stop
  | Heartbeat
  | FsEvent string
  | TimerFired nat
  | DirRemoved string
  | DirCreated string

fun watcher_step :: "watcher_options \<Rightarrow> watcher_event \<Rightarrow> watcher \<Rightarrow> watcher" where
  "watcher_step opts Start w = start opts w"
| "watcher_step opts Stop w = stop w"
| "watcher_step opts Heartbeat w = resetHeartbeat opts w"
| "watcher_step opts (FsEvent dir) w =
     (if dir \<in> set (watchers w) then watchCallback opts dir w else w)"
| "watcher_step opts (TimerFired h) w =
     (if h \<in> set (pending w) then heartbeat_expired opts (clearTimeout h w) else w)"
| "watcher_step opts (DirRemoved dir) w =
     w\<lparr>fs := filter (\<lambda>d. d \<noteq> dir \<and> \<not> strict_prefix (dir @ ''/'') d) (fs w)\<rparr>"
| "watcher_step opts (DirCreated dir) w =
     (if dir \<in> set (fs w) then w else w\<lparr>fs := fs w @ [dir]\<rparr>)"

fun watcher_run :: "watcher_options \<Rightarrow> watcher_event list \<Rightarrow> watcher \<Rightarrow> watcher" where
  "watcher_run opts [] w = w"
| "watcher_run opts (e # es) w = watcher_run opts es (watcher_step opts e w)"

definition stop_test_options :: watcher_options where
  "stop_test_options = \<lparr>directories = [''/tmp/stop-test''], heartbeatTimeoutMs = 30,
     recursive = False, platform_linux = True\<rparr>"

text \<open>The invariants used below: what \<open>stop\<close> leaves behind, and what every history keeps.\<close>

definition stopped :: "watcher \<Rightarrow> bool" where
  "stopped w \<longleftrightarrow> \<not> isActive w \<and> pending w = [] \<and> watchers w = [] \<and> heartbeatTimer w = None"

definition timer_inv :: "watcher \<Rightarrow> bool" where
  "timer_inv w \<longleftrightarrow> set (pending w) \<subseteq> set_option (heartbeatTimer w)"

definition after_stop :: "watcher_options \<Rightarrow> watcher_event list \<Rightarrow> string list \<Rightarrow> watcher" where
  "after_stop opts history dirs = stop (watcher_run opts history (new_watcher dirs))"


section \<open>Cycle supervisor (the event-driven team manager)\<close>

text \<open>
  The supervisor is the module state of the team manager: \<open>leadProcess\<close>, \<open>debounceTimer\<close>,
  \<open>teamActive\<close>, \<open>pendingBoardChange\<close>, \<open>lastSpawnTime\<close>, \<open>totalTurnsUsed\<close>,
  \<open>currentConfig\<close>, \<open>currentPort\<close>, \<open>currentOnExit\<close>. The record adds the environment the
  module acts on: every child process that was spawned, other live process ids, the timers
  armed in the event loop, the persisted state files, the signals sent, the number of
  \<open>onExit\<close> calls, and whether the server process itself has been terminated by an
  uncaught exception. Times are milliseconds.

  A child is the \<open>ChildProcess\<close> object together with what the closures of its cycle
  captured: the configuration and the log stream. A handle is the position of the child in
  \<open>children\<close>, so \<open>leadProcess\<close> is a handle or \<open>null\<close>.

  The log stream is a \<open>fs.WriteStream\<close> with no \<open>error\<close> listener. It is open until
  \<open>end()\<close> is called on it, by the exit handler or by \<open>stderr.pipe(logStream)\<close> when the
  standard error of the child ends; it is closed once it has flushed and destroyed itself.
  \<open>write\<close> on an open stream is accepted (\<open>written\<close> counts the chunks; their text is left
  out) and on a closed stream it is dropped. \<open>write\<close> on a stream that is ending destroys
  the stream with \<open>ERR_STREAM_WRITE_AFTER_END\<close>: the \<open>error\<close> event is emitted on the next
  tick, and as nothing listens for it, it is thrown as an uncaught exception, which
  terminates the server process once the running handler has returned. Writes to the
  console are left out.
\<close>

record team_config =
  teamName :: string
  projectDir :: string
  model :: "string option"
  config_maxTurns :: "int option"

text \<open>\<open>config.maxTurns || 1000\<close>: a missing or zero value gives 1000.\<close>

definition maxTurns_or_1000 :: "team_config \<Rightarrow> int" where
  "maxTurns_or_1000 c =
     (case config_maxTurns c of None \<Rightarrow> 1000 | Some n \<Rightarrow> if n = 0 then 1000 else n)"

record persisted_state =
  leadPid :: "nat option"
  startedAt :: "int option"
  stoppedAt :: "int option"

datatype log_state = LogOpen | LogEnding | LogClosed

record child =
  pid :: nat
  killed :: bool
  exited :: bool
  captured :: team_config
  log :: log_state
  written :: nat

datatype signal = SIGTERM | SIGKILL

datatype timer_kind =
    Respawn
  | IdleDebounce
  | KillHandle
  | KillPid nat

record supervisor =
  leadProcess :: "nat option"
  debounceTimer :: "nat option"
  teamActive :: bool
  pendingBoardChange :: bool
  lastSpawnTime :: int
  totalTurnsUsed :: int
  currentConfig :: "team_config option"
  currentPort :: int
  currentOnExit :: bool
  children :: "child list"
  other_pids :: "nat list"
  timers :: "(nat \<times> timer_kind \<times> int) list"
  next_timer :: nat
  state_files :: "string \<Rightarrow> persisted_state"
  signals :: "(nat \<times> signal) list"
  spawned :: "(nat \<times> int) list"
  onExit_calls :: nat
  uncaught :: "string option"

definition no_state :: persisted_state where
  "no_state = \<lparr>leadPid = None, startedAt = None, stoppedAt = None\<rparr>"

definition new_supervisor :: supervisor where
  "new_supervisor = \<lparr>leadProcess = None, debounceTimer = None, teamActive = False,
     pendingBoardChange = False, lastSpawnTime = 0, totalTurnsUsed = 0, currentConfig = None,
     currentPort = 0, currentOnExit = False, children = [], other_pids = [], timers = [],
     next_timer = 0, state_files = (\<lambda>_. no_state), signals = [], spawned = [],
     onExit_calls = 0, uncaught = None\<rparr>"

definition child_at :: "supervisor \<Rightarrow> nat \<Rightarrow> child option" where
  "child_at s h = (if h < length (children s) then Some (children s ! h) else None)"

definition update_child :: "nat \<Rightarrow> (child \<Rightarrow> child) \<Rightarrow> supervisor \<Rightarrow> supervisor" where
  "update_child h f s =
     (case child_at s h of
        None \<Rightarrow> s
      | Some c \<Rightarrow> s\<lparr>children := (children s)[h := f c]\<rparr>)"

text \<open>\<open>logStream.write(chunk)\<close> and \<open>logStream.end()\<close> on the log stream of the child \<open>h\<close>.\<close>

definition log_write :: "nat \<Rightarrow> supervisor \<Rightarrow> supervisor" where
  "log_write h s =
     (case child_at s h of
        None \<Rightarrow> s
      | Some c \<Rightarrow>
          (case log c of
             LogOpen \<Rightarrow> update_child h (\<lambda>c. c\<lparr>written := Suc (written c)\<rparr>) s
           | LogEnding \<Rightarrow>
               (update_child h (\<lambda>c. c\<lparr>log := LogClosed\<rparr>) s)
                 \<lparr>uncaught := (case uncaught s of
                                 None \<Rightarrow> Some ''ERR_STREAM_WRITE_AFTER_END''
                               | Some e \<Rightarrow> Some e)\<rparr>
           | LogClosed \<Rightarrow> s))"

definition log_end :: "nat \<Rightarrow> supervisor \<Rightarrow> supervisor" where
  "log_end h s =
     update_child h (\<lambda>c. if log c = LogOpen then c\<lparr>log := LogEnding\<rparr> else c) s"

definition isPidAlive :: "supervisor \<Rightarrow> nat \<Rightarrow> bool" where
  "isPidAlive s p \<longleftrightarrow>
     (\<exists>c \<in> set (children s). pid c = p \<and> \<not> exited c) \<or> p \<in> set (other_pids s)"

definition getPersistedPid :: "supervisor \<Rightarrow> string \<Rightarrow> nat option" where
  "getPersistedPid s name = leadPid (state_files s name)"

definition checkRunning :: "supervisor \<Rightarrow> string \<Rightarrow> bool" where
  "checkRunning s name \<longleftrightarrow>
     teamActive s \<or> (case getPersistedPid s name of Some p \<Rightarrow> isPidAlive s p | None \<Rightarrow> False)"

text \<open>\<open>persistState\<close> replaces the whole file by the fields given.\<close>

definition persistState :: "string \<Rightarrow> persisted_state \<Rightarrow> supervisor \<Rightarrow> supervisor" where
  "persistState name st s = s\<lparr>state_files := (state_files s)(name := st)\<rparr>"

definition call_onExit :: "supervisor \<Rightarrow> supervisor" where
  "call_onExit s = (if currentOnExit s then s\<lparr>onExit_calls := Suc (onExit_calls s)\<rparr> else s)"

definition setTimeout :: "timer_kind \<Rightarrow> int \<Rightarrow> supervisor \<Rightarrow> nat \<times> supervisor" where
  "setTimeout k ms s =
     (next_timer s,
      s\<lparr>timers := timers s @ [(next_timer s, k, ms)], next_timer := Suc (next_timer s)\<rparr>)"

definition clear_timer :: "nat \<Rightarrow> supervisor \<Rightarrow> supervisor" where
  "clear_timer h s = s\<lparr>timers := filter (\<lambda>t. fst t \<noteq> h) (timers s)\<rparr>"

text \<open>\<open>leadProcess && !leadProcess.killed\<close>\<close>

definition lead_alive :: "supervisor \<Rightarrow> bool" where
  "lead_alive s \<longleftrightarrow>
     (case leadProcess s of
        None \<Rightarrow> False
      | Some h \<Rightarrow> (case child_at s h of None \<Rightarrow> True | Some c \<Rightarrow> \<not> killed c))"

text \<open>
  \<open>leadProcess.kill(signal)\<close>: the signal is sent and \<open>killed\<close> is set when the process has
  not exited.
\<close>

definition kill_lead :: "signal \<Rightarrow> supervisor \<Rightarrow> supervisor" where
  "kill_lead sig s =
     (case leadProcess s of
        None \<Rightarrow> s
      | Some h \<Rightarrow>
          (case child_at s h of
             None \<Rightarrow> s
           | Some c \<Rightarrow>
               if exited c then s
               else (update_child h (\<lambda>c. c\<lparr>killed := True\<rparr>) s)
                      \<lparr>signals := signals s @ [(pid c, sig)]\<rparr>))"

definition spawnCycle :: "int \<Rightarrow> nat \<Rightarrow> supervisor \<Rightarrow> supervisor" where
  "spawnCycle now new_pid s =
     (case currentConfig s of
        None \<Rightarrow> s
      | Some config \<Rightarrow>
          (let remainingBudget = maxTurns_or_1000 config - totalTurnsUsed s in
           if remainingBudget \<le> 0
           then call_onExit
                  (persistState (teamName config) (no_state\<lparr>stoppedAt := Some now\<rparr>)
                     (s\<lparr>teamActive := False\<rparr>))
           else
             (let cycleTurns = min 50 remainingBudget in
              persistState (teamName config)
                \<lparr>leadPid = Some new_pid, startedAt = Some now, stoppedAt = None\<rparr>
                (s\<lparr>lastSpawnTime := now, pendingBoardChange := False,
                   leadProcess := Some (length (children s)),
                   children := children s @
                     [\<lparr>pid = new_pid, killed = False, exited = False, captured = config,
                       log = LogOpen, written = 1\<rparr>],
                   spawned := spawned s @ [(new_pid, cycleTurns)]\<rparr>))))"

text \<open>
  The handler registered with \<open>leadProcess.on("exit", ...)\<close> for the child \<open>h\<close>, whose
  closure captured \<open>config\<close>. It writes the exit line to the log stream and ends it; the
  crash-guard branch then writes to the stream it has just ended.
\<close>

definition on_exit :: "nat \<Rightarrow> team_config \<Rightarrow> int \<Rightarrow> supervisor \<Rightarrow> supervisor" where
  "on_exit h config now s =
     (let name = teamName config;
          s1 = persistState name no_state ((log_end h (log_write h s))\<lparr>leadProcess := None\<rparr>)
      in
      if \<not> teamActive s1
      then call_onExit (persistState name (no_state\<lparr>stoppedAt := Some now\<rparr>) s1)
      else if now - lastSpawnTime s1 < 5000
      then call_onExit (log_write h s1)
      else if totalTurnsUsed s1 \<ge> maxTurns_or_1000 config
      then call_onExit
             (persistState name (no_state\<lparr>stoppedAt := Some now\<rparr>) (s1\<lparr>teamActive := False\<rparr>))
      else if pendingBoardChange s1
      then (case setTimeout Respawn 1000 s1 of
              (t, s2) \<Rightarrow> call_onExit (s2\<lparr>debounceTimer := Some t\<rparr>))
      else call_onExit s1)"

definition startTeam ::
  "team_config \<Rightarrow> int \<Rightarrow> bool \<Rightarrow> int \<Rightarrow> nat \<Rightarrow> supervisor \<Rightarrow> string + supervisor" where
  "startTeam config port onExit now new_pid s =
     (if checkRunning s (teamName config) then Inl ''Team is already running''
      else Inr (spawnCycle now new_pid
                  (s\<lparr>teamActive := True, totalTurnsUsed := 0, pendingBoardChange := False,
                     currentConfig := Some config, currentPort := port,
                     currentOnExit := onExit\<rparr>)))"

definition stopTeam :: "string \<Rightarrow> int \<Rightarrow> supervisor \<Rightarrow> supervisor" where
  "stopTeam name now s =
     (let s1 = s\<lparr>teamActive := False, pendingBoardChange := False\<rparr>;
          s2 = (case debounceTimer s1 of
                  Some h \<Rightarrow> (clear_timer h s1)\<lparr>debounceTimer := None\<rparr>
                | None \<Rightarrow> s1);
          s3 = (if lead_alive s2
                then snd (setTimeout KillHandle 5000 (kill_lead SIGTERM s2))
                else (case getPersistedPid s2 name of
                        None \<Rightarrow> s2
                      | Some p \<Rightarrow>
                          if p \<noteq> 0 \<and> isPidAlive s2 p
                          then snd (setTimeout (KillPid p) 5000
                                      (s2\<lparr>signals := signals s2 @ [(p, SIGTERM)]\<rparr>))
                          else s2))
      in persistState name (no_state\<lparr>stoppedAt := Some now\<rparr>)
           (s3\<lparr>leadProcess := None, currentConfig := None\<rparr>))"

definition notifyBoardChanged :: "supervisor \<Rightarrow> supervisor" where
  "notifyBoardChanged s =
     (if \<not> teamActive s then s
      else if lead_alive s then s\<lparr>pendingBoardChange := True\<rparr>
      else
        (let s1 = (case debounceTimer s of Some h \<Rightarrow> clear_timer h s | None \<Rightarrow> s) in
         case setTimeout IdleDebounce 3000 s1 of
           (h, s2) \<Rightarrow> s2\<lparr>debounceTimer := Some h\<rparr>))"

text \<open>The four functions passed to \<open>setTimeout\<close>.\<close>

fun timer_callback :: "timer_kind \<Rightarrow> int \<Rightarrow> nat \<Rightarrow> supervisor \<Rightarrow> supervisor" where
  "timer_callback Respawn now new_pid s = spawnCycle now new_pid (s\<lparr>debounceTimer := None\<rparr>)"
| "timer_callback IdleDebounce now new_pid s =
     (let s1 = s\<lparr>debounceTimer := None\<rparr> in
      if teamActive s1 \<and> leadProcess s1 = None then spawnCycle now new_pid s1 else s1)"
| "timer_callback KillHandle now new_pid s =
     (if lead_alive s then kill_lead SIGKILL s else s)"
| "timer_callback (KillPid p) now new_pid s =
     (if isPidAlive s p then s\<lparr>signals := signals s @ [(p, SIGKILL)]\<rparr> else s)"

text \<open>
  Events of the supervisor. A spawn needs the current time and the process id the operating
  system hands out, so the events that can spawn carry both. The events of a child name
  its handle: \<open>ResultEvent\<close> is a \<open>result\<close> line with a numeric \<open>num_turns\<close> on its standard
  output and \<open>OutputLine\<close> any other line that is logged; \<open>StderrEnded\<close> is the end of its
  standard error, on which the pipe ends the log stream; \<open>LogFinished\<close> is the log stream
  closing after it was ended; \<open>ChildExit\<close> is its \<open>exit\<close> event. The order in which
  Node delivers the last three is not fixed.
\<close>

datatype supervisor_event =
    StartTeam team_config int bool int nat
  | StopTeam string int
  | BoardChanged
  | ResultEvent nat int
  | OutputLine nat
  | StderrEnded nat
  | LogFinished nat
  | ChildExit nat int
  | TimerExpired nat int nat

fun handle_event :: "supervisor_event \<Rightarrow> supervisor \<Rightarrow> supervisor" where
  "handle_event (StartTeam config port onExit now new_pid) s =
     (case startTeam config port onExit now new_pid s of Inl _ \<Rightarrow> s | Inr s1 \<Rightarrow> s1)"
| "handle_event (StopTeam name now) s = stopTeam name now s"
| "handle_event BoardChanged s = notifyBoardChanged s"
| "handle_event (ResultEvent h n) s =
     (case child_at s h of
        None \<Rightarrow> s
      | Some c \<Rightarrow> log_write h (s\<lparr>totalTurnsUsed := totalTurnsUsed s + n\<rparr>))"
| "handle_event (OutputLine h) s = log_write h s"
| "handle_event (StderrEnded h) s = log_end h s"
| "handle_event (LogFinished h) s =
     update_child h (\<lambda>c. if log c = LogEnding then c\<lparr>log := LogClosed\<rparr> else c) s"
| "handle_event (ChildExit h now) s =
     (case child_at s h of
        None \<Rightarrow> s
      | Some c \<Rightarrow>
          if exited c then s
          else on_exit h (captured c) now (update_child h (\<lambda>c. c\<lparr>exited := True\<rparr>) s))"
| "handle_event (TimerExpired t now new_pid) s =
     (case find (\<lambda>x. fst x = t) (timers s) of
        None \<Rightarrow> s
      | Some (_, k, _) \<Rightarrow> timer_callback k now new_pid (clear_timer t s))"

text \<open>Once an uncaught exception has terminated the server process, nothing runs any more.\<close>

definition supervisor_step :: "supervisor_event \<Rightarrow> supervisor \<Rightarrow> supervisor" where
  "supervisor_step e s = (if uncaught s = None then handle_event e s else s)"

fun supervisor_run :: "supervisor_event list \<Rightarrow> supervisor \<Rightarrow> supervisor" where
  "supervisor_run [] s = s"
| "supervisor_run (e # es) s = supervisor_run es (supervisor_step e s)"

definition demo_config :: team_config where
  "demo_config = \<lparr>teamName = ''demo'', projectDir = ''/tmp/p'', model = None,
     config_maxTurns = Some 200\<rparr>"

text \<open>
  Scenario S5: start at time 0 (the child gets pid 4711 and handle 0), the child exits after
  1 s. The exit event comes while the log stream is still open, after the pipe has ended
  it, or after it has closed.
\<close>

definition crashed_early :: supervisor where
  "crashed_early =
     supervisor_run [StartTeam demo_config 5173 True 0 4711, ChildExit 0 1000] new_supervisor"

definition crashed_early_piped :: supervisor where
  "crashed_early_piped =
     supervisor_run [StartTeam demo_config 5173 True 0 4711, StderrEnded 0, ChildExit 0 1000]
       new_supervisor"

definition crashed_early_closed :: supervisor where
  "crashed_early_closed =
     supervisor_run [StartTeam demo_config 5173 True 0 4711, StderrEnded 0, LogFinished 0,
                     ChildExit 0 1000]
       new_supervisor"


section \<open>JSON values and the board\<close>

text \<open>
  Request bodies are whatever \<open>JSON.parse\<close> returns. The handlers copy values out of the
  body without checking them, so a field of a task that comes from a request holds a JSON
  value, not a value of its declared TypeScript type. Numbers are integers here.
  A property that is absent reads as \<open>undefined\<close>, which is \<open>None\<close>.
\<close>

datatype json =
    JNull
  | JBool bool
  | JNum int
  | JStr string
  | JArr "json list"
  | JObj "(string \<times> json) list"

fun truthy :: "json \<Rightarrow> bool" where
  "truthy JNull = False"
| "truthy (JBool b) = b"
| "truthy (JNum n) = (n \<noteq> 0)"
| "truthy (JStr s) = (s \<noteq> [])"
| "truthy (JArr _) = True"
| "truthy (JObj _) = True"

text \<open>
  \<open>body.key\<close> on a value other than \<open>null\<close>: an own property of an object, \<open>undefined\<close>
  on anything else (none of the keys the handlers read is a property of a string, a
  number, a boolean or an array).
\<close>

fun get_prop :: "json \<Rightarrow> string \<Rightarrow> json option" where
  "get_prop (JObj kvs) k = map_of kvs k"
| "get_prop _ k = None"

text \<open>\<open>x || d\<close>\<close>

fun js_or :: "json option \<Rightarrow> json \<Rightarrow> json" where
  "js_or None d = d"
| "js_or (Some v) d = (if truthy v then v else d)"

text \<open>
  \<open>a === b\<close> between a value read from the board and a value read from the request: by
  value on primitives, never true on two arrays or two objects, which are distinct
  objects.
\<close>

fun strict_eq :: "json \<Rightarrow> json \<Rightarrow> bool" where
  "strict_eq JNull JNull = True"
| "strict_eq (JBool a) (JBool b) = (a = b)"
| "strict_eq (JNum a) (JNum b) = (a = b)"
| "strict_eq (JStr a) (JStr b) = (a = b)"
| "strict_eq _ _ = False"

datatype ref_type = Related | Blocks | BlockedBy | Parent | Child

fun inverseType :: "ref_type \<Rightarrow> ref_type" where
  "inverseType Related = Related"
| "inverseType Blocks = BlockedBy"
| "inverseType BlockedBy = Blocks"
| "inverseType Parent = Child"
| "inverseType Child = Parent"

definition ref_type_of :: "json \<Rightarrow> ref_type option" where
  "ref_type_of j =
     (if j = JStr ''related'' then Some Related
      else if j = JStr ''blocks'' then Some Blocks
      else if j = JStr ''blocked-by'' then Some BlockedBy
      else if j = JStr ''parent'' then Some Parent
      else if j = JStr ''child'' then Some Child
      else None)"

datatype task_ref = TaskRef (taskId: string) (ref_kind: ref_type)

record comment =
  comment_id :: string
  author :: json
  comment_text :: json
  timestamp :: string

text \<open>
  A task as it is stored. \<open>task_id\<close>, \<open>task_order\<close>, \<open>task_type\<close> and \<open>task_context\<close> are
  the fields \<open>id\<close>, \<open>order\<close>, \<open>type\<close> and \<open>context\<close>. The nine fields that \<open>PATCH\<close> may overwrite hold JSON values;
  \<open>assignee\<close> may be absent. \<open>refs\<close> is only written by the ref endpoints, with the
  types of \<open>RefType\<close>; a task whose \<open>refs\<close> is missing on disk is a task without refs,
  which is what every handler makes of it.
\<close>

record task =
  task_id :: string
  title :: json
  description :: json
  column :: json
  task_order :: json
  priority :: json
  task_type :: json
  tags :: json
  comments :: "comment list"
  task_context :: json
  refs :: "task_ref list"
  assignee :: "json option"
  createdAt :: string
  updatedAt :: string

record board_meta =
  meta_name :: string
  meta_createdAt :: string
  version :: int
  team :: "team_config option"

record board =
  meta :: board_meta
  columns :: "(string \<times> string) list"
  tasks :: "task list"

definition defaultBoard :: "string \<Rightarrow> board" where
  "defaultBoard now =
     \<lparr>meta = \<lparr>meta_name = ''My Board'', meta_createdAt = now, version = 1, team = None\<rparr>,
      columns = [(''backlog'', ''Backlog''), (''ready'', ''Ready''),
                 (''in-progress'', ''In Progress''), (''review'', ''Review''),
                 (''done'', ''Done'')],
      tasks = []\<rparr>"

text \<open>
  The board store: the board file of the active team (\<open>None\<close> when it does not exist yet;
  a file that exists is taken to parse as a board) and every board passed to
  \<open>writeBoardSync\<close>, in order. \<open>readBoard\<close> writes the default board when the file is
  missing.
\<close>

record store =
  board_file :: "board option"
  writes :: "board list"

definition writeBoardSync :: "board \<Rightarrow> store \<Rightarrow> store" where
  "writeBoardSync b st = st\<lparr>board_file := Some b, writes := writes st @ [b]\<rparr>"

definition readBoard :: "string \<Rightarrow> store \<Rightarrow> board \<times> store" where
  "readBoard now st =
     (case board_file st of
        None \<Rightarrow> (defaultBoard now, writeBoardSync (defaultBoard now) st)
      | Some b \<Rightarrow> (b, st))"


section \<open>Paths (POSIX \<open>path.isAbsolute\<close> and \<open>path.resolve\<close>)\<close>

text \<open>
  The two functions of Node's \<open>path\<close> module that the context endpoint calls, as they
  behave on a POSIX platform (\<open>path.sep\<close> is \<open>/\<close>). \<open>path.resolve\<close> walks its arguments
  from the right until it has an absolute path, falls back on the working directory, and
  normalises: empty and \<open>.\<close> segments are dropped, \<open>..\<close> removes the segment before it.
\<close>

definition isAbsolute :: "string \<Rightarrow> bool" where
  "isAbsolute p \<longleftrightarrow> (case p of [] \<Rightarrow> False | c # _ \<Rightarrow> c = CHR ''/'')"

fun split_slash :: "string \<Rightarrow> string list" where
  "split_slash [] = [[]]"
| "split_slash (c # cs) =
     (if c = CHR ''/'' then [] # split_slash cs
      else (case split_slash cs of [] \<Rightarrow> [[c]] | seg # segs \<Rightarrow> (c # seg) # segs))"

fun join_slash :: "string list \<Rightarrow> string" where
  "join_slash [] = []"
| "join_slash [seg] = seg"
| "join_slash (seg # segs) = seg @ ''/'' @ join_slash segs"

text \<open>The segments kept so far are in reverse order.\<close>

fun normalize_segments :: "bool \<Rightarrow> string list \<Rightarrow> string list \<Rightarrow> string list" where
  "normalize_segments allowAboveRoot kept [] = rev kept"
| "normalize_segments allowAboveRoot kept (seg # segs) =
     (if seg = [] \<or> seg = ''.'' then normalize_segments allowAboveRoot kept segs
      else if seg = ''..'' then
        (case kept of
           lastSeg # earlier \<Rightarrow>
             if lastSeg = ''..''
             then normalize_segments allowAboveRoot
                    (if allowAboveRoot then seg # kept else kept) segs
             else normalize_segments allowAboveRoot earlier segs
         | [] \<Rightarrow>
             normalize_segments allowAboveRoot (if allowAboveRoot then [seg] else []) segs)
      else normalize_segments allowAboveRoot (seg # kept) segs)"

definition normalizeString :: "string \<Rightarrow> bool \<Rightarrow> string" where
  "normalizeString p allowAboveRoot =
     join_slash (normalize_segments allowAboveRoot [] (split_slash p))"

text \<open>The loop of \<open>resolve\<close>, over the arguments from the right and then the working directory.\<close>

fun resolve_loop :: "string list \<Rightarrow> string \<Rightarrow> string \<times> bool" where
  "resolve_loop [] resolvedPath = (resolvedPath, False)"
| "resolve_loop (p # ps) resolvedPath =
     (if p = [] then resolve_loop ps resolvedPath
      else if isAbsolute p then (p @ ''/'' @ resolvedPath, True)
      else resolve_loop ps (p @ ''/'' @ resolvedPath))"

definition resolve :: "string \<Rightarrow> string list \<Rightarrow> string" where
  "resolve cwd args =
     (case resolve_loop (rev args @ [cwd]) [] of
        (resolvedPath, resolvedAbsolute) \<Rightarrow>
          (let n = normalizeString resolvedPath (\<not> resolvedAbsolute) in
           if resolvedAbsolute then ''/'' @ n
           else if n \<noteq> [] then n else ''.''))"


section \<open>HTTP routes (handleRoute)\<close>

text \<open>
  A request is its method, its URL and the bytes of its body as \<open>JSON.parse\<close> sees them:
  nothing, a JSON text, or something that does not parse. The runtime supplies the clock
  (\<open>new Date().toISOString()\<close>, read once per request here), the identifier returned by
  \<open>generateId()\<close> and the working directory. A handler returns what became of the request
  and the board store after it:
  \<^item> \<open>Responded status body\<close>: \<open>json(res, status, body)\<close> was called;
  \<^item> \<open>Raised message\<close>: the promise of \<open>handleRoute\<close> was rejected (the plugin answers 500);
  \<^item> \<open>NotHandled\<close>: \<open>handleRoute\<close> resolved \<open>false\<close> (the plugin answers 404);
  \<^item> \<open>TeamRoute\<close>: one of the team routes matched; they are not followed further;
  \<^item> \<open>IllTyped\<close>: a value outside its declared TypeScript type reached an operation
    whose JavaScript coercions are not followed (arithmetic on an \<open>order\<close> that is not a
    number, a ref \<open>type\<close> outside \<open>RefType\<close>).
\<close>

datatype raw_body = Empty | Json json | Garbage

record request =
  req_method :: string
  req_url :: string
  req_body :: raw_body

record runtime =
  clock :: string
  fresh_id :: string
  cwd :: string

datatype reply =
    TaskReply task
  | CommentReply comment
  | BoardReply board
  | OkReply
  | ErrorReply string

datatype outcome =
    NotHandled
  | Responded nat reply
  | Raised string
  | TeamRoute string
  | IllTyped

definition parseBody :: "raw_body \<Rightarrow> string + json" where
  "parseBody b = (case b of Empty \<Rightarrow> Inr (JObj []) | Json j \<Rightarrow> Inr j | Garbage \<Rightarrow> Inl ''Invalid JSON'')"

text \<open>\<open>find\<close> and \<open>findIndex\<close> return the first match; the handlers then mutate or splice it.\<close>

fun update_first :: "('a \<Rightarrow> bool) \<Rightarrow> ('a \<Rightarrow> 'a) \<Rightarrow> 'a list \<Rightarrow> 'a list" where
  "update_first P f [] = []"
| "update_first P f (x # xs) = (if P x then f x # xs else x # update_first P f xs)"

fun remove_first :: "('a \<Rightarrow> bool) \<Rightarrow> 'a list \<Rightarrow> 'a list" where
  "remove_first P [] = []"
| "remove_first P (x # xs) = (if P x then xs else x # remove_first P xs)"

definition has_id :: "string \<Rightarrow> task \<Rightarrow> bool" where
  "has_id i t \<longleftrightarrow> task_id t = i"

subsection \<open>POST /api/tasks\<close>

fun order_number :: "json \<Rightarrow> int option" where
  "order_number (JNum n) = Some n"
| "order_number _ = None"

text \<open>
  \<open>columnTasks.length > 0 ? Math.max(...columnTasks.map((t) => t.order)) : 0\<close>, on numbers.
\<close>

definition maxOrder :: "task list \<Rightarrow> int option" where
  "maxOrder columnTasks =
     (if columnTasks = [] then Some 0
      else if \<forall>t \<in> set columnTasks. order_number (task_order t) \<noteq> None
      then Some (Max (set (map (\<lambda>t. the (order_number (task_order t))) columnTasks)))
      else None)"

definition new_task :: "runtime \<Rightarrow> json \<Rightarrow> int \<Rightarrow> task" where
  "new_task rt body maxOrd =
     \<lparr>task_id = fresh_id rt,
      title = js_or (get_prop body ''title'') (JStr ''Untitled''),
      description = js_or (get_prop body ''description'') (JStr []),
      column = js_or (get_prop body ''column'') (JStr ''backlog''),
      task_order = JNum (maxOrd + 1),
      priority = js_or (get_prop body ''priority'') (JStr ''medium''),
      task_type = js_or (get_prop body ''type'') (JStr ''task''),
      tags = js_or (get_prop body ''tags'') (JArr []),
      comments = [],
      task_context = JArr [],
      refs = [],
      assignee = None,
      createdAt = clock rt,
      updatedAt = clock rt\<rparr>"

definition post_task :: "runtime \<Rightarrow> request \<Rightarrow> store \<Rightarrow> outcome \<times> store" where
  "post_task rt req st =
     (case parseBody (req_body req) of
        Inl e \<Rightarrow> (Raised e, st)
      | Inr body \<Rightarrow>
          (case readBoard (clock rt) st of
             (board, st1) \<Rightarrow>
               if body = JNull then (Raised ''TypeError'', st1)
               else
                 (let columnTasks =
                        filter (\<lambda>t. strict_eq (column t)
                                        (js_or (get_prop body ''column'') (JStr ''backlog'')))
                               (tasks board)
                  in case maxOrder columnTasks of
                       None \<Rightarrow> (IllTyped, st1)
                     | Some m \<Rightarrow>
                         (Responded 201 (TaskReply (new_task rt body m)),
                          writeBoardSync (board\<lparr>tasks := tasks board @ [new_task rt body m]\<rparr>)
                            st1))))"

subsection \<open>PATCH /api/tasks/:id\<close>

text \<open>
  The loop over \<open>updatable\<close>: \<open>if (key in body) task[key] = body[key]\<close>. On an object the
  test is on its own keys; an array has none of these keys.
\<close>

definition apply_patch :: "json \<Rightarrow> task \<Rightarrow> task" where
  "apply_patch body t =
     t\<lparr>title := (case get_prop body ''title'' of Some v \<Rightarrow> v | None \<Rightarrow> title t),
       description := (case get_prop body ''description'' of Some v \<Rightarrow> v | None \<Rightarrow> description t),
       column := (case get_prop body ''column'' of Some v \<Rightarrow> v | None \<Rightarrow> column t),
       task_order := (case get_prop body ''order'' of Some v \<Rightarrow> v | None \<Rightarrow> task_order t),
       priority := (case get_prop body ''priority'' of Some v \<Rightarrow> v | None \<Rightarrow> priority t),
       task_type := (case get_prop body ''type'' of Some v \<Rightarrow> v | None \<Rightarrow> task_type t),
       tags := (case get_prop body ''tags'' of Some v \<Rightarrow> v | None \<Rightarrow> tags t),
       task_context := (case get_prop body ''context'' of Some v \<Rightarrow> v | None \<Rightarrow> task_context t),
       assignee := (case get_prop body ''assignee'' of Some v \<Rightarrow> Some v | None \<Rightarrow> assignee t)\<rparr>"

text \<open>The \<open>in\<close> operator throws a \<open>TypeError\<close> when its right operand is not an object.\<close>

fun is_object :: "json \<Rightarrow> bool" where
  "is_object (JObj _) = True"
| "is_object (JArr _) = True"
| "is_object _ = False"

definition patch_task :: "runtime \<Rightarrow> string \<Rightarrow> request \<Rightarrow> store \<Rightarrow> outcome \<times> store" where
  "patch_task rt i req st =
     (case parseBody (req_body req) of
        Inl e \<Rightarrow> (Raised e, st)
      | Inr body \<Rightarrow>
          (case readBoard (clock rt) st of
             (board, st1) \<Rightarrow>
               (case find (has_id i) (tasks board) of
                  None \<Rightarrow> (Responded 404 (ErrorReply ''Task not found''), st1)
                | Some t \<Rightarrow>
                    if \<not> is_object body then (Raised ''TypeError'', st1)
                    else
                      (let t1 = (apply_patch body t)\<lparr>updatedAt := clock rt\<rparr> in
                       (Responded 200 (TaskReply t1),
                        writeBoardSync
                          (board\<lparr>tasks := update_first (has_id i) (\<lambda>_. t1) (tasks board)\<rparr>)
                          st1)))))"

subsection \<open>DELETE /api/tasks/:id\<close>

definition delete_task :: "runtime \<Rightarrow> string \<Rightarrow> store \<Rightarrow> outcome \<times> store" where
  "delete_task rt i st =
     (case readBoard (clock rt) st of
        (board, st1) \<Rightarrow>
          (case find (has_id i) (tasks board) of
             None \<Rightarrow> (Responded 404 (ErrorReply ''Task not found''), st1)
           | Some t \<Rightarrow>
               (Responded 200 OkReply,
                writeBoardSync (board\<lparr>tasks := remove_first (has_id i) (tasks board)\<rparr>) st1)))"

subsection \<open>POST /api/tasks/:id/comments\<close>

definition post_comment :: "runtime \<Rightarrow> string \<Rightarrow> request \<Rightarrow> store \<Rightarrow> outcome \<times> store" where
  "post_comment rt i req st =
     (case parseBody (req_body req) of
        Inl e \<Rightarrow> (Raised e, st)
      | Inr body \<Rightarrow>
          (case readBoard (clock rt) st of
             (board, st1) \<Rightarrow>
               (case find (has_id i) (tasks board) of
                  None \<Rightarrow> (Responded 404 (ErrorReply ''Task not found''), st1)
                | Some t \<Rightarrow>
                    if body = JNull then (Raised ''TypeError'', st1)
                    else
                      (let c = \<lparr>comment_id = fresh_id rt,
                                author = js_or (get_prop body ''author'') (JStr ''User''),
                                comment_text = js_or (get_prop body ''text'') (JStr []),
                                timestamp = clock rt\<rparr>
                       in (Responded 201 (CommentReply c),
                           writeBoardSync
                             (board\<lparr>tasks :=
                                update_first (has_id i)
                                  (\<lambda>t. t\<lparr>comments := comments t @ [c], updatedAt := clock rt\<rparr>)
                                  (tasks board)\<rparr>)
                             st1)))))"


subsection \<open>POST /api/tasks/:id/context\<close>

text \<open>
  \<open>task.context.some((f) => f.path === filePath)\<close>: reading \<open>path\<close> of \<open>null\<close> throws; the
  search stops at the first entry with that path.
\<close>

fun some_path :: "string \<Rightarrow> json list \<Rightarrow> bool attempt" where
  "some_path p [] = Returned False"
| "some_path p (f # rest) =
     (if f = JNull then Thrown
      else if get_prop f ''path'' = Some (JStr p) then Returned True
      else some_path p rest)"

text \<open>\<open>{ path: filePath, note: body.note || undefined }\<close> as it is serialised.\<close>

definition context_entry :: "string \<Rightarrow> json \<Rightarrow> json" where
  "context_entry filePath body =
     JObj ((''path'', JStr filePath) #
           (case get_prop body ''note'' of
              Some n \<Rightarrow> if truthy n then [(''note'', n)] else []
            | None \<Rightarrow> []))"

definition inside :: "string \<Rightarrow> string \<Rightarrow> string \<Rightarrow> bool" where
  "inside wd dir filePath \<longleftrightarrow>
     prefix (resolve wd [dir] @ ''/'') filePath \<or> filePath = resolve wd [dir]"

definition post_context :: "runtime \<Rightarrow> string \<Rightarrow> request \<Rightarrow> store \<Rightarrow> outcome \<times> store" where
  "post_context rt i req st =
     (case parseBody (req_body req) of
        Inl e \<Rightarrow> (Raised e, st)
      | Inr body \<Rightarrow>
          (case readBoard (clock rt) st of
             (board, st1) \<Rightarrow>
               (case find (has_id i) (tasks board) of
                  None \<Rightarrow> (Responded 404 (ErrorReply ''Task not found''), st1)
                | Some t \<Rightarrow>
                    if body = JNull then (Raised ''TypeError'', st1)
                    else if \<not> truthy (js_or (get_prop body ''path'') JNull)
                    then (Responded 400 (ErrorReply ''path is required''), st1)
                    else
                      (case get_prop body ''path'' of
                         Some (JStr rawPath) \<Rightarrow>
                           if isAbsolute rawPath
                           then (Responded 400 (ErrorReply
                                   ''Absolute paths are not allowed; use a path relative to projectDir''),
                                 st1)
                           else
                             (case map_option projectDir (team (meta board)) of
                                None \<Rightarrow>
                                  (Responded 400 (ErrorReply
                                     ''No projectDir configured; connect a team first''), st1)
                              | Some dir \<Rightarrow>
                                  if dir = []
                                  then (Responded 400 (ErrorReply
                                          ''No projectDir configured; connect a team first''), st1)
                                  else
                                    (let filePath = resolve (cwd rt) [dir, rawPath] in
                                     if \<not> inside (cwd rt) dir filePath
                                     then (Responded 400 (ErrorReply ''Path escapes projectDir''), st1)
                                     else
                                       (case (if truthy (task_context t) then task_context t
                                              else JArr []) of
                                          JArr entries \<Rightarrow>
                                            (case some_path filePath entries of
                                               Thrown \<Rightarrow> (Raised ''TypeError'', st1)
                                             | Returned True \<Rightarrow>
                                                 (Responded 201
                                                    (TaskReply (t\<lparr>task_context := JArr entries\<rparr>)),
                                                  st1)
                                             | Returned False \<Rightarrow>
                                                 (let t1 = t\<lparr>task_context :=
                                                              JArr (entries @ [context_entry filePath body]),
                                                            updatedAt := clock rt\<rparr>
                                                  in (Responded 201 (TaskReply t1),
                                                      writeBoardSync
                                                        (board\<lparr>tasks :=
                                                           update_first (has_id i) (\<lambda>_. t1)
                                                             (tasks board)\<rparr>)
                                                        st1)))
                                        | _ \<Rightarrow> (Raised ''TypeError'', st1))))
                       | _ \<Rightarrow> (Raised ''TypeError'', st1)))))"

subsection \<open>POST /api/tasks/:id/refs and DELETE /api/tasks/:id/refs/:targetId\<close>

definition has_ref :: "string \<Rightarrow> ref_type \<Rightarrow> task \<Rightarrow> bool" where
  "has_ref target k t \<longleftrightarrow> (\<exists>r \<in> set (refs t). taskId r = target \<and> ref_kind r = k)"

definition push_ref :: "string \<Rightarrow> ref_type \<Rightarrow> string \<Rightarrow> task \<Rightarrow> task" where
  "push_ref target k stamp t =
     t\<lparr>refs := refs t @ [TaskRef target k], updatedAt := stamp\<rparr>"

text \<open>
  The source task is mutated first; the target is then looked at as it is after that
  mutation, which matters when a task refers to itself (\<open>task\<close> and \<open>target\<close> are then the
  same object).
\<close>

definition add_ref :: "string \<Rightarrow> string \<Rightarrow> ref_type \<Rightarrow> string \<Rightarrow> task list \<Rightarrow> task list" where
  "add_ref i target k stamp ts =
     (let ts1 = update_first (has_id i) (push_ref target k stamp) ts in
      case find (has_id target) ts1 of
        None \<Rightarrow> ts1
      | Some tgt \<Rightarrow>
          if has_ref i (inverseType k) tgt then ts1
          else update_first (has_id target) (push_ref i (inverseType k) stamp) ts1)"

definition post_ref :: "runtime \<Rightarrow> string \<Rightarrow> request \<Rightarrow> store \<Rightarrow> outcome \<times> store" where
  "post_ref rt i req st =
     (case parseBody (req_body req) of
        Inl e \<Rightarrow> (Raised e, st)
      | Inr body \<Rightarrow>
          (case readBoard (clock rt) st of
             (board, st1) \<Rightarrow>
               (case find (has_id i) (tasks board) of
                  None \<Rightarrow> (Responded 404 (ErrorReply ''Task not found''), st1)
                | Some t \<Rightarrow>
                    if body = JNull then (Raised ''TypeError'', st1)
                    else if \<not> truthy (js_or (get_prop body ''taskId'') JNull)
                          \<or> \<not> truthy (js_or (get_prop body ''type'') JNull)
                    then (Responded 400 (ErrorReply ''taskId and type are required''), st1)
                    else
                      (case find (\<lambda>t. strict_eq (JStr (task_id t))
                                         (js_or (get_prop body ''taskId'') JNull)) (tasks board) of
                         None \<Rightarrow> (Responded 404 (ErrorReply ''Referenced task not found''), st1)
                       | Some tgt \<Rightarrow>
                           (case ref_type_of (js_or (get_prop body ''type'') JNull) of
                              None \<Rightarrow> (IllTyped, st1)
                            | Some k \<Rightarrow>
                                if has_ref (task_id tgt) k t
                                then (Responded 200 (TaskReply t), st1)
                                else
                                  (let ts2 = add_ref i (task_id tgt) k (clock rt) (tasks board) in
                                   (Responded 201
                                      (TaskReply (case find (has_id i) ts2 of
                                                    Some t2 \<Rightarrow> t2 | None \<Rightarrow> t)),
                                    writeBoardSync (board\<lparr>tasks := ts2\<rparr>) st1)))))))"

text \<open>
  \<open>findIndex((r) => r.taskId === targetId)\<close> and \<open>splice\<close>: the first ref to the target goes,
  whatever its type; \<open>updatedAt\<close> is set even when there was none.
\<close>

definition drop_ref :: "string \<Rightarrow> string \<Rightarrow> task \<Rightarrow> task" where
  "drop_ref target stamp t =
     t\<lparr>refs := remove_first (\<lambda>r. taskId r = target) (refs t), updatedAt := stamp\<rparr>"

definition drop_inverse :: "string \<Rightarrow> ref_type \<Rightarrow> string \<Rightarrow> task \<Rightarrow> task" where
  "drop_inverse i k stamp t =
     t\<lparr>refs := remove_first (\<lambda>r. taskId r = i \<and> ref_kind r = k) (refs t), updatedAt := stamp\<rparr>"

definition remove_ref :: "string \<Rightarrow> string \<Rightarrow> string \<Rightarrow> task list \<Rightarrow> task list" where
  "remove_ref i target stamp ts =
     (case find (has_id i) ts of
        None \<Rightarrow> ts
      | Some t \<Rightarrow>
          (let ts1 = update_first (has_id i) (drop_ref target stamp) ts in
           case find (\<lambda>r. taskId r = target) (refs t) of
             None \<Rightarrow> ts1
           | Some removed \<Rightarrow>
               update_first (has_id target)
                 (drop_inverse i (inverseType (ref_kind removed)) stamp) ts1))"

definition delete_ref :: "runtime \<Rightarrow> string \<Rightarrow> string \<Rightarrow> store \<Rightarrow> outcome \<times> store" where
  "delete_ref rt i target st =
     (case readBoard (clock rt) st of
        (board, st1) \<Rightarrow>
          (case find (has_id i) (tasks board) of
             None \<Rightarrow> (Responded 404 (ErrorReply ''Task not found''), st1)
           | Some t \<Rightarrow>
               (let ts2 = remove_ref i target (clock rt) (tasks board) in
                (Responded 200
                   (TaskReply (case find (has_id i) ts2 of Some t2 \<Rightarrow> t2 | None \<Rightarrow> t)),
                 writeBoardSync (board\<lparr>tasks := ts2\<rparr>) st1))))"

subsection \<open>Dispatch\<close>

text \<open>
  The regular expressions of the task routes all start with \<open>^\/api\/tasks\/\<close> and go on
  with groups \<open>([^/]+)\<close> separated by slashes up to \<open>$\<close>: the rest of the URL, cut at the
  slashes, must be the expected list of segments, with the groups non-empty.
\<close>

definition task_segments :: "string \<Rightarrow> string list option" where
  "task_segments u =
     (if prefix ''/api/tasks/'' u then Some (split_slash (drop 11 u)) else None)"

definition patchMatch :: "string \<Rightarrow> string option" where
  "patchMatch u =
     (case task_segments u of Some [i] \<Rightarrow> if i \<noteq> [] then Some i else None | _ \<Rightarrow> None)"

definition subMatch :: "string \<Rightarrow> string \<Rightarrow> string option" where
  "subMatch what u =
     (case task_segments u of
        Some [i, w] \<Rightarrow> if i \<noteq> [] \<and> w = what then Some i else None
      | _ \<Rightarrow> None)"

definition refDeleteMatch :: "string \<Rightarrow> (string \<times> string) option" where
  "refDeleteMatch u =
     (case task_segments u of
        Some [i, w, target] \<Rightarrow>
          if i \<noteq> [] \<and> w = ''refs'' \<and> target \<noteq> [] then Some (i, target) else None
      | _ \<Rightarrow> None)"

definition handleRoute :: "runtime \<Rightarrow> request \<Rightarrow> store \<Rightarrow> outcome \<times> store" where
  "handleRoute rt req st =
     (let m = req_method req; u = req_url req in
      if m = ''GET'' \<and> u = ''/api/board''
      then (case readBoard (clock rt) st of (board, st1) \<Rightarrow> (Responded 200 (BoardReply board), st1))
      else if m = ''POST'' \<and> u = ''/api/tasks'' then post_task rt req st
      else if m = ''PATCH'' \<and> patchMatch u \<noteq> None then patch_task rt (the (patchMatch u)) req st
      else if m = ''DELETE'' \<and> patchMatch u \<noteq> None then delete_task rt (the (patchMatch u)) st
      else if m = ''POST'' \<and> subMatch ''comments'' u \<noteq> None
      then post_comment rt (the (subMatch ''comments'' u)) req st
      else if m = ''POST'' \<and> subMatch ''context'' u \<noteq> None
      then post_context rt (the (subMatch ''context'' u)) req st
      else if m = ''POST'' \<and> subMatch ''refs'' u \<noteq> None
      then post_ref rt (the (subMatch ''refs'' u)) req st
      else if m = ''DELETE'' \<and> refDeleteMatch u \<noteq> None
      then delete_ref rt (fst (the (refDeleteMatch u))) (snd (the (refDeleteMatch u))) st
      else if m = ''GET'' \<and> u = ''/api/team'' then (TeamRoute ''GET /api/team'', st)
      else if m = ''POST'' \<and> u = ''/api/team/connect'' then (TeamRoute ''POST /api/team/connect'', st)
      else if m = ''POST'' \<and> u = ''/api/team/disconnect''
      then (TeamRoute ''POST /api/team/disconnect'', st)
      else if m = ''POST'' \<and> u = ''/api/team/start'' then (TeamRoute ''POST /api/team/start'', st)
      else if m = ''POST'' \<and> u = ''/api/team/stop'' then (TeamRoute ''POST /api/team/stop'', st)
      else if m = ''GET'' \<and> prefix ''/api/team/logs'' u then (TeamRoute ''GET /api/team/logs'', st)
      else if m = ''GET'' \<and> u = ''/api/teams/available''
      then (TeamRoute ''GET /api/teams/available'', st)
      else (NotHandled, st))"


subsection \<open>Sample data\<close>

definition sample_runtime :: runtime where
  "sample_runtime = \<lparr>clock = ''2025-01-01T00:00:00.000Z'', fresh_id = ''n1'', cwd = ''/srv''\<rparr>"

definition empty_store :: store where
  "empty_store = \<lparr>board_file = None, writes = []\<rparr>"

definition sample_task :: "string \<Rightarrow> task_ref list \<Rightarrow> task" where
  "sample_task i rs =
     \<lparr>task_id = i, title = JStr ''Untitled'', description = JStr [], column = JStr ''backlog'',
      task_order = JNum 1, priority = JStr ''medium'', task_type = JStr ''task'', tags = JArr [],
      comments = [], task_context = JArr [], refs = rs, assignee = None,
      createdAt = ''2024-12-31T00:00:00.000Z'', updatedAt = ''2024-12-31T00:00:00.000Z''\<rparr>"

definition store_of :: "task list \<Rightarrow> store" where
  "store_of ts = \<lparr>board_file = Some ((defaultBoard ''2024-12-31T00:00:00.000Z'')\<lparr>tasks := ts\<rparr>),
                  writes = []\<rparr>"

text \<open>Scenario S1 after the POST: \<open>a1\<close> blocks \<open>b2\<close>.\<close>

definition linked_store :: store where
  "linked_store =
     store_of [sample_task ''a1'' [TaskRef ''b2'' Blocks],
               sample_task ''b2'' [TaskRef ''a1'' BlockedBy]]"

definition stored_tasks :: "store \<Rightarrow> task list" where
  "stored_tasks st = (case board_file st of None \<Rightarrow> [] | Some b \<Rightarrow> tasks b)"

definition numeric_orders :: "store \<Rightarrow> bool" where
  "numeric_orders st \<longleftrightarrow> (\<forall>t \<in> set (stored_tasks st). order_number (task_order t) \<noteq> None)"

definition no_slash :: "string \<Rightarrow> bool" where
  "no_slash i \<longleftrightarrow> i \<noteq> [] \<and> CHR ''/'' \<notin> set i"





definition next_order :: "task list \<Rightarrow> int" where
  "next_order ts =
     (if ts = [] then 1 else Max ((\<lambda>u. the (order_number (task_order u))) ` set ts) + 1)"

definition bogus_body :: raw_body where
  "bogus_body = Json (JObj [(''column'', JStr ''bogus'')])"


subsection \<open>Ref symmetry\<close>




definition kind_name :: "ref_type \<Rightarrow> string" where
  "kind_name k =
     (case k of Related \<Rightarrow> ''related'' | Blocks \<Rightarrow> ''blocks'' | BlockedBy \<Rightarrow> ''blocked-by''
      | Parent \<Rightarrow> ''parent'' | Child \<Rightarrow> ''child'')"












subsection \<open>File context\<close>

















section \<open>Turn governor: results\<close>

text \<open>
  C3 (evaluation at the failing input). With \<open>maxTurns = 10\<close>, \<open>recordTurns(10)\<close> reaches the
  budget and invokes \<open>onBudgetExhausted(10, 10)\<close>; a later \<open>recordTurns(1)\<close> in the same epoch
  invokes it again with \<open>(11, 10)\<close>: the \<open>exhausted\<close> flag is set but not consulted.
\<close>

theorem recordTurns_fires_again:
  "exhausted_calls (record_all test_options [10, 1] new_governor)
     = [BudgetExhausted 10 10, BudgetExhausted 11 10]"
  by (simp add: exhausted_calls_def test_options_def new_governor_def recordTurns_def
      checkWarning_def Let_def)


section \<open>Event delivery: results\<close>

lemma try_once_throwing:
  assumes "always_throws (action opts)"
  shows "try_once opts s
           = (None, s\<lparr>world := snd (action opts (world s)), trace := trace s @ [ActionCalled]\<rparr>)"
proof -
  obtain r w where a: "action opts (world s) = (r, w)" by (cases "action opts (world s)")
  have "fst (action opts (world s)) = Thrown" using assms by (simp add: always_throws_def)
  then have "r = Thrown" using a by simp
  then show ?thesis using a by (simp add: try_once_def)
qed

lemma backoff_counts:
  "failedCount (backoff opts a s) = failedCount s"
  "deliveredCount (backoff opts a s) = deliveredCount s"
  "world (backoff opts a s) = world s"
  "action_calls (backoff opts a s) = action_calls s"
  "onExhausted_calls (backoff opts a s) = onExhausted_calls s"
  by (simp_all add: backoff_def action_calls_def onExhausted_calls_def)

lemma backoff_sleeps:
  "sleeps (backoff opts a s)
     = sleeps s @ (if a < maxRetries opts then [baseDelayMs opts * 2 ^ nat a] else [])"
  by (simp add: backoff_def sleeps_def)

lemma delays_from_step:
  "0 \<le> a \<Longrightarrow> a < m \<Longrightarrow> delays_from b a m = (b * 2 ^ nat a) # delays_from b (a + 1) m"
proof -
  assume a: "0 \<le> a" "a < m"
  have u: "[nat a..<nat m] = nat a # [Suc (nat a)..<nat m]"
    using a by (simp add: upt_conv_Cons)
  have s: "Suc (nat a) = nat (a + 1)" using a by simp
  show ?thesis unfolding delays_from_def u s by simp
qed

lemma delays_from_done: "m \<le> a \<Longrightarrow> delays_from b a m = []"
  by (simp add: delays_from_def)

lemma deliver_from_throwing:
  assumes "always_throws (action opts)"
  shows "0 \<le> a \<Longrightarrow> a \<le> maxRetries opts \<Longrightarrow>
    (case deliver_from opts a s of (r, s') \<Rightarrow>
       r = False \<and> failedCount s' = failedCount s + 1 \<and> deliveredCount s' = deliveredCount s
       \<and> world s' = ((\<lambda>w. snd (action opts w)) ^^ nat (maxRetries opts + 1 - a)) (world s)
       \<and> action_calls s' = action_calls s + nat (maxRetries opts + 1 - a)
       \<and> sleeps s' = sleeps s @ delays_from (baseDelayMs opts) a (maxRetries opts)
       \<and> onExhausted_calls s' = onExhausted_calls s @ (if has_onExhausted opts then [maxRetries opts + 1] else []))"
proof (induction "nat (maxRetries opts - a)" arbitrary: a s)
  case 0
  then have e: "a = maxRetries opts" by simp
  let ?s1 = "s\<lparr>world := snd (action opts (world s)), trace := trace s @ [ActionCalled]\<rparr>"
  have "deliver_from opts a s = exhausted_after opts (a + 1) ?s1"
    using e try_once_throwing[OF assms, of s] by (subst deliver_from.simps) simp
  then show ?case using e
    by (simp add: exhausted_after_def action_calls_def onExhausted_calls_def sleeps_def
        delays_from_done)
next
  case (Suc n)
  let ?s1 = "s\<lparr>world := snd (action opts (world s)), trace := trace s @ [ActionCalled]\<rparr>"
  have s1: "failedCount ?s1 = failedCount s" "deliveredCount ?s1 = deliveredCount s"
    "action_calls ?s1 = action_calls s + 1" "onExhausted_calls ?s1 = onExhausted_calls s"
    "sleeps ?s1 = sleeps s" "world ?s1 = snd (action opts (world s))"
    by (simp_all add: action_calls_def onExhausted_calls_def sleeps_def)
  from Suc.hyps(2) Suc.prems have lt: "a + 1 \<le> maxRetries opts" and ne: "a \<noteq> maxRetries opts"
    and n: "n = nat (maxRetries opts - (a + 1))" by simp_all
  have eq: "deliver_from opts a s = deliver_from opts (a + 1) (backoff opts a ?s1)"
    using ne lt try_once_throwing[OF assms, of s] by (subst deliver_from.simps) simp
  have k: "nat (maxRetries opts + 1 - a) = Suc (nat (maxRetries opts + 1 - (a + 1)))"
    using lt Suc.prems by simp
  have d: "delays_from (baseDelayMs opts) a (maxRetries opts)
             = (baseDelayMs opts * 2 ^ nat a) # delays_from (baseDelayMs opts) (a + 1) (maxRetries opts)"
    using delays_from_step[of a "maxRetries opts" "baseDelayMs opts"] lt Suc.prems by simp
  have lt': "a < maxRetries opts" using lt by simp
  obtain r s' where ds: "deliver_from opts (a + 1) (backoff opts a ?s1) = (r, s')"
    by (cases "deliver_from opts (a + 1) (backoff opts a ?s1)")
  have ih: "r = False \<and> failedCount s' = failedCount s + 1 \<and> deliveredCount s' = deliveredCount s
       \<and> world s' = ((\<lambda>w. snd (action opts w)) ^^ nat (maxRetries opts + 1 - (a + 1)))
                      (snd (action opts (world s)))
       \<and> action_calls s' = action_calls s + 1 + nat (maxRetries opts + 1 - (a + 1))
       \<and> sleeps s' = sleeps s @ [baseDelayMs opts * 2 ^ nat a]
                      @ delays_from (baseDelayMs opts) (a + 1) (maxRetries opts)
       \<and> onExhausted_calls s' = onExhausted_calls s @ (if has_onExhausted opts then [maxRetries opts + 1] else [])"
    using Suc.hyps(1)[OF n _ lt, of "backoff opts a ?s1"] Suc.prems(1) lt'
    unfolding ds backoff_counts backoff_sleeps s1
    by simp
  have w: "((\<lambda>w. snd (action opts w)) ^^ nat (maxRetries opts + 1 - (a + 1)))
             (snd (action opts (world s)))
         = ((\<lambda>w. snd (action opts w)) ^^ nat (maxRetries opts + 1 - a)) (world s)"
    unfolding k
    using funpow_swap1[of "\<lambda>w. snd (action opts w)" "nat (maxRetries opts + 1 - (a + 1))" "world s"]
    by simp
  show ?case
    unfolding eq ds d using ih w k by simp
qed

text \<open>
  C7. When the action throws on every invocation and \<open>maxRetries = k\<close>, \<open>deliver()\<close>
  resolves false after invoking the action exactly \<open>k + 1\<close> times: the caller's world has
  gone through the action \<open>k + 1\<close> times in a row, and the trace holds \<open>k + 1\<close> calls of
  it. \<open>failedCount\<close> grows by one, \<open>deliveredCount\<close> does not change, \<open>onExhausted\<close> (when
  supplied) is called once, with attempt count \<open>k + 1\<close>, and the \<open>k\<close> sleeps between the
  attempts last \<open>baseDelayMs \<cdot> 2\<^sup>a\<close> for \<open>a = 0, ..., k - 1\<close>.
\<close>

theorem deliver_retry_count:
  assumes "always_throws (action opts)" and "maxRetries opts = int k"
  shows "fst (deliver opts s) = False
       \<and> world (snd (deliver opts s)) = ((\<lambda>w. snd (action opts w)) ^^ (k + 1)) (world s)
       \<and> action_calls (snd (deliver opts s)) = action_calls s + (k + 1)
       \<and> failedCount (snd (deliver opts s)) = failedCount s + 1
       \<and> deliveredCount (snd (deliver opts s)) = deliveredCount s
       \<and> onExhausted_calls (snd (deliver opts s))
           = onExhausted_calls s @ (if has_onExhausted opts then [int k + 1] else [])
       \<and> sleeps (snd (deliver opts s))
           = sleeps s @ map (\<lambda>a. baseDelayMs opts * 2 ^ a) [0..<k]"
proof -
  have n: "nat (int k + 1) = Suc k" by simp
  show ?thesis
    using deliver_from_throwing[OF assms(1), of 0 s] assms(2)
    by (simp add: deliver_def delays_from_def n del: upt_Suc split: prod.splits)
qed

theorem deliver_retry_count_witness:
  "always_throws (action failing_options) \<and> maxRetries failing_options = int 2
   \<and> fst (deliver failing_options (new_delivery 0)) = False
   \<and> world (snd (deliver failing_options (new_delivery 0))) = 3
   \<and> action_calls (snd (deliver failing_options (new_delivery 0))) = 3
   \<and> failedCount (snd (deliver failing_options (new_delivery 0))) = 1
   \<and> deliveredCount (snd (deliver failing_options (new_delivery 0))) = 0
   \<and> onExhausted_calls (snd (deliver failing_options (new_delivery 0))) = [3]
   \<and> sleeps (snd (deliver failing_options (new_delivery 0))) = [10, 20]"
proof -
  have a: "always_throws (action failing_options)"
    by (simp add: always_throws_def failing_options_def failing_action_def)
  have b: "maxRetries failing_options = int 2"
    by (simp add: failing_options_def)
  have c: "has_onExhausted failing_options" "baseDelayMs failing_options = 10"
    "action failing_options = failing_action"
    by (simp_all add: failing_options_def)
  have u: "[0..<2] = [0, Suc 0]" by (simp add: upt_conv_Cons)
  show ?thesis
    using deliver_retry_count[OF a b, of "new_delivery 0"] a b c
    by (simp add: new_delivery_def action_calls_def onExhausted_calls_def sleeps_def
        failing_action_def u numeral_2_eq_2 numeral_3_eq_3)
qed


section \<open>Resilient watcher: results\<close>

lemma fs_only [simp]:
  "pending (ensureDirectories opts w) = pending w"
  "heartbeatTimer (ensureDirectories opts w) = heartbeatTimer w"
  "isActive (ensureDirectories opts w) = isActive w"
  "reinitCount (ensureDirectories opts w) = reinitCount w"
  by (simp_all add: ensureDirectories_def)

lemma watchSingle_keeps [simp]:
  "pending (watchSingle d w) = pending w"
  "heartbeatTimer (watchSingle d w) = heartbeatTimer w"
  "isActive (watchSingle d w) = isActive w"
  "reinitCount (watchSingle d w) = reinitCount w"
  "fs (watchSingle d w) = fs w"
  by (simp_all add: watchSingle_def)

lemma foldl_keeps:
  assumes "\<And>w x. P (f w x) = P w"
  shows "P (foldl f w xs) = P w"
  using assms by (induction xs arbitrary: w) simp_all

lemma walk_keeps [simp]:
  "pending (foldl (\<lambda>w2 subdir. watchSingle subdir w2) w ds) = pending w"
  "heartbeatTimer (foldl (\<lambda>w2 subdir. watchSingle subdir w2) w ds) = heartbeatTimer w"
  "isActive (foldl (\<lambda>w2 subdir. watchSingle subdir w2) w ds) = isActive w"
  "reinitCount (foldl (\<lambda>w2 subdir. watchSingle subdir w2) w ds) = reinitCount w"
  by (induction ds arbitrary: w) simp_all

lemma initWatchers_keeps [simp]:
  "pending (initWatchers opts w) = pending w"
  "heartbeatTimer (initWatchers opts w) = heartbeatTimer w"
  "isActive (initWatchers opts w) = isActive w"
  "reinitCount (initWatchers opts w) = reinitCount w"
proof -
  have a: "\<And>xs w. pending (foldl (\<lambda>w1 dir.
               if recursive opts \<and> platform_linux opts
               then foldl (\<lambda>w2 subdir. watchSingle subdir w2) w1 (walkDirs (fs w1) dir)
               else watchSingle dir w1) w xs) = pending w"
    subgoal for xs w by (induction xs arbitrary: w) simp_all done
  have b: "\<And>xs w. heartbeatTimer (foldl (\<lambda>w1 dir.
               if recursive opts \<and> platform_linux opts
               then foldl (\<lambda>w2 subdir. watchSingle subdir w2) w1 (walkDirs (fs w1) dir)
               else watchSingle dir w1) w xs) = heartbeatTimer w"
    subgoal for xs w by (induction xs arbitrary: w) simp_all done
  have c: "\<And>xs w. isActive (foldl (\<lambda>w1 dir.
               if recursive opts \<and> platform_linux opts
               then foldl (\<lambda>w2 subdir. watchSingle subdir w2) w1 (walkDirs (fs w1) dir)
               else watchSingle dir w1) w xs) = isActive w"
    subgoal for xs w by (induction xs arbitrary: w) simp_all done
  have d: "\<And>xs w. reinitCount (foldl (\<lambda>w1 dir.
               if recursive opts \<and> platform_linux opts
               then foldl (\<lambda>w2 subdir. watchSingle subdir w2) w1 (walkDirs (fs w1) dir)
               else watchSingle dir w1) w xs) = reinitCount w"
    subgoal for xs w by (induction xs arbitrary: w) simp_all done
  show "pending (initWatchers opts w) = pending w"
    "heartbeatTimer (initWatchers opts w) = heartbeatTimer w"
    "isActive (initWatchers opts w) = isActive w"
    "reinitCount (initWatchers opts w) = reinitCount w"
    by (simp_all add: initWatchers_def a b c d teardownWatchers_def)
qed

lemma resetHeartbeat_inv: "timer_inv w \<Longrightarrow> timer_inv (resetHeartbeat opts w)"
  by (auto simp: timer_inv_def resetHeartbeat_def clearTimeout_def Let_def split: option.splits)

lemma resetHeartbeat_inactive: "\<not> isActive w \<Longrightarrow> resetHeartbeat opts w = w"
  by (simp add: resetHeartbeat_def)

lemma timer_inv_step: "timer_inv w \<Longrightarrow> timer_inv (watcher_step opts e w)"
proof (cases e)
  case Start
  assume "timer_inv w"
  then have "timer_inv (initWatchers opts (ensureDirectories opts (w\<lparr>isActive := True, reinitCount := 0\<rparr>)))"
    by (simp add: timer_inv_def)
  then show ?thesis using Start by (simp add: start_def resetHeartbeat_inv)
next
  case Stop
  assume "timer_inv w"
  then show ?thesis using Stop
    by (auto simp: timer_inv_def stop_def teardownWatchers_def clearTimeout_def Let_def split: option.splits)
next
  case Heartbeat
  assume "timer_inv w"
  then show ?thesis using Heartbeat by (simp add: resetHeartbeat_inv)
next
  case (FsEvent d)
  assume "timer_inv w"
  then have "timer_inv (resetHeartbeat opts w)" by (rule resetHeartbeat_inv)
  then show ?thesis using FsEvent \<open>timer_inv w\<close>
    by (simp add: watchCallback_def Let_def timer_inv_def)
next
  case (TimerFired h)
  assume a: "timer_inv w"
  then have b: "timer_inv (clearTimeout h w)"
    by (auto simp: timer_inv_def clearTimeout_def)
  then have "timer_inv (initWatchers opts (ensureDirectories opts ((clearTimeout h w)\<lparr>reinitCount := Suc (reinitCount (clearTimeout h w))\<rparr>)))"
    by (simp add: timer_inv_def)
  then show ?thesis using TimerFired a b
    by (simp add: heartbeat_expired_def resetHeartbeat_inv)
next
  case (DirRemoved d)
  assume "timer_inv w"
  then show ?thesis using DirRemoved by (simp add: timer_inv_def)
next
  case (DirCreated d)
  assume "timer_inv w"
  then show ?thesis using DirCreated by (simp add: timer_inv_def)
qed

lemma timer_inv_run: "timer_inv w \<Longrightarrow> timer_inv (watcher_run opts es w)"
  by (induction es arbitrary: w) (simp_all add: timer_inv_step)

lemma removeAll_only: "set xs \<subseteq> {x} \<Longrightarrow> removeAll x xs = []"
  by (induction xs) auto

lemma stop_stopped: "timer_inv w \<Longrightarrow> stopped (stop w)"
  by (auto simp: timer_inv_def stopped_def stop_def teardownWatchers_def clearTimeout_def Let_def
      removeAll_only split: option.splits)

lemma stop_idem: "stopped w \<Longrightarrow> stop w = w"
  by (simp add: stopped_def stop_def teardownWatchers_def Let_def)

lemma stopped_step:
  "stopped w \<Longrightarrow> e \<noteq> Start \<Longrightarrow>
     stopped (watcher_step opts e w) \<and> reinitCount (watcher_step opts e w) = reinitCount w"
  by (cases e) (simp_all add: stopped_def stop_def teardownWatchers_def resetHeartbeat_def Let_def)

lemma stopped_run:
  "stopped w \<Longrightarrow> Start \<notin> set es \<Longrightarrow>
     stopped (watcher_run opts es w) \<and> reinitCount (watcher_run opts es w) = reinitCount w"
proof (induction es arbitrary: w)
  case Nil
  then show ?case by simp
next
  case (Cons e es)
  then have "e \<noteq> Start" "Start \<notin> set es" by auto
  with Cons show ?case using stopped_step[of w e opts] by simp
qed


lemma new_watcher_inv: "timer_inv (new_watcher dirs)"
  by (simp add: timer_inv_def new_watcher_def)

text \<open>
  C9. Take a watcher after any history of events and call \<open>stop()\<close>. Then \<open>active\<close> is false,
  a second \<open>stop()\<close> changes nothing, and no timer is left armed. Whatever happens
  afterwards, short of a new \<open>start()\<close> (manual heartbeats, stale timer or file system
  events, further stops, directories removed or created), the watcher stays inactive, no
  timer gets armed and \<open>reinitCount\<close> keeps its value. This holds for every
  \<open>heartbeatTimeoutMs\<close> and every list of directories.
\<close>

theorem stop_is_final:
  "\<not> isActive (after_stop opts history dirs)
   \<and> stop (after_stop opts history dirs) = after_stop opts history dirs
   \<and> pending (after_stop opts history dirs) = []
   \<and> (Start \<notin> set later \<longrightarrow>
        \<not> isActive (watcher_run opts later (after_stop opts history dirs))
      \<and> reinitCount (watcher_run opts later (after_stop opts history dirs))
          = reinitCount (after_stop opts history dirs)
      \<and> pending (watcher_run opts later (after_stop opts history dirs)) = [])"
proof -
  have "timer_inv (watcher_run opts history (new_watcher dirs))"
    by (rule timer_inv_run[OF new_watcher_inv])
  then have s: "stopped (after_stop opts history dirs)"
    unfolding after_stop_def by (rule stop_stopped)
  show ?thesis
    using s stop_idem[OF s] stopped_run[OF s, of later opts] by (auto simp: stopped_def)
qed

theorem stop_is_final_witness:
  "Start \<notin> set [TimerFired 0, Heartbeat, FsEvent ''/tmp/stop-test'', Stop]
   \<and> \<not> isActive (watcher_run stop_test_options
                      [TimerFired 0, Heartbeat, FsEvent ''/tmp/stop-test'', Stop]
                      (after_stop stop_test_options [Start] []))
   \<and> reinitCount (watcher_run stop_test_options
                      [TimerFired 0, Heartbeat, FsEvent ''/tmp/stop-test'', Stop]
                      (after_stop stop_test_options [Start] []))
       = reinitCount (after_stop stop_test_options [Start] [])"
proof -
  have h: "Start \<notin> set [TimerFired 0, Heartbeat, FsEvent ''/tmp/stop-test'', Stop]"
    by simp
  from stop_is_final[of stop_test_options "[Start]" "[]"
                        "[TimerFired 0, Heartbeat, FsEvent ''/tmp/stop-test'', Stop]"] h
  show ?thesis by blast
qed


section \<open>Cycle supervisor: results\<close>

lemma demo_started:
  "supervisor_run [StartTeam demo_config 5173 True 0 4711] new_supervisor
     = new_supervisor
         \<lparr>leadProcess := Some 0, teamActive := True, currentConfig := Some demo_config,
          currentPort := 5173, currentOnExit := True,
          children := [\<lparr>pid = 4711, killed = False, exited = False, captured = demo_config,
                        log = LogOpen, written = 1\<rparr>],
          state_files := (\<lambda>_. no_state)(''demo'' :=
                            \<lparr>leadPid = Some 4711, startedAt = Some 0, stoppedAt = None\<rparr>),
          spawned := [(4711, 50)]\<rparr>"
  by (simp add: supervisor_step_def new_supervisor_def demo_config_def startTeam_def
      checkRunning_def getPersistedPid_def no_state_def spawnCycle_def maxTurns_or_1000_def
      persistState_def Let_def)

text \<open>
  C2 (evaluation at the failing input). In scenario S5 the child exits one second after the
  spawn and the exit handler takes the crash-guard branch. The branch calls \<open>onExit\<close> and
  arms no timer, but it does not clear \<open>teamActive\<close>, and it writes to the log stream that
  the handler has just ended. When the exit event finds the log stream open, or ended by
  the pipe and not yet closed, that write (or already the exit line) raises
  \<open>ERR_STREAM_WRITE_AFTER_END\<close> with nothing to catch it: the server process is terminated,
  and no later event is handled. When the log stream has closed before the exit event the
  writes are dropped, and the supervisor is idle, not stopped: the next board-change
  notification arms the 3 s idle debounce timer, and when it expires a second cycle is
  spawned.
\<close>

theorem crash_guard_not_stopped:
  "teamActive crashed_early
   \<and> uncaught crashed_early = Some ''ERR_STREAM_WRITE_AFTER_END''
   \<and> onExit_calls crashed_early = 1 \<and> timers crashed_early = []
   \<and> leadProcess crashed_early = None
   \<and> supervisor_run [BoardChanged, TimerExpired 0 4000 4712] crashed_early = crashed_early
   \<and> teamActive crashed_early_piped
   \<and> uncaught crashed_early_piped = Some ''ERR_STREAM_WRITE_AFTER_END''
   \<and> teamActive crashed_early_closed
   \<and> uncaught crashed_early_closed = None
   \<and> onExit_calls crashed_early_closed = 1 \<and> timers crashed_early_closed = []
   \<and> timers (supervisor_run [BoardChanged] crashed_early_closed) = [(0, IdleDebounce, 3000)]
   \<and> spawned (supervisor_run [BoardChanged, TimerExpired 0 4000 4712] crashed_early_closed)
       = [(4711, 50), (4712, 50)]"
proof -
  have a: "teamActive crashed_early"
    "uncaught crashed_early = Some ''ERR_STREAM_WRITE_AFTER_END''"
    "onExit_calls crashed_early = 1" "timers crashed_early = []"
    "leadProcess crashed_early = None"
    unfolding crashed_early_def
    by (simp_all add: supervisor_step_def new_supervisor_def demo_config_def startTeam_def
        checkRunning_def getPersistedPid_def no_state_def spawnCycle_def maxTurns_or_1000_def
        persistState_def on_exit_def call_onExit_def log_write_def log_end_def child_at_def
        update_child_def Let_def)
  have b: "supervisor_run [BoardChanged, TimerExpired 0 4000 4712] crashed_early = crashed_early"
    using a(2) by (simp add: supervisor_step_def)
  have c: "teamActive crashed_early_piped"
    "uncaught crashed_early_piped = Some ''ERR_STREAM_WRITE_AFTER_END''"
    unfolding crashed_early_piped_def
    by (simp_all add: supervisor_step_def new_supervisor_def demo_config_def startTeam_def
        checkRunning_def getPersistedPid_def no_state_def spawnCycle_def maxTurns_or_1000_def
        persistState_def on_exit_def call_onExit_def log_write_def log_end_def child_at_def
        update_child_def Let_def)
  have d: "teamActive crashed_early_closed" "uncaught crashed_early_closed = None"
    "onExit_calls crashed_early_closed = 1" "timers crashed_early_closed = []"
    "timers (supervisor_run [BoardChanged] crashed_early_closed) = [(0, IdleDebounce, 3000)]"
    "spawned (supervisor_run [BoardChanged, TimerExpired 0 4000 4712] crashed_early_closed)
       = [(4711, 50), (4712, 50)]"
    unfolding crashed_early_closed_def
    by (simp_all add: supervisor_step_def new_supervisor_def demo_config_def startTeam_def
        checkRunning_def getPersistedPid_def no_state_def spawnCycle_def maxTurns_or_1000_def
        persistState_def on_exit_def call_onExit_def log_write_def log_end_def child_at_def
        update_child_def notifyBoardChanged_def lead_alive_def setTimeout_def clear_timer_def
        Let_def)
  show ?thesis using a b c d by simp
qed


section \<open>HTTP routes: results\<close>

subsection \<open>Dispatch and shared facts\<close>

lemma split_slash_no_slash: "CHR ''/'' \<notin> set i \<Longrightarrow> split_slash i = [i]"
  by (induction i) auto

lemma patchMatch_id: "no_slash i \<Longrightarrow> patchMatch (''/api/tasks/'' @ i) = Some i"
  by (simp add: patchMatch_def task_segments_def no_slash_def split_slash_no_slash)

lemma find_has_id: "(find (has_id i) ts \<noteq> None) = (i \<in> set (map task_id ts))"
  by (induction ts) (auto simp: has_id_def)

lemma filter_remove_first:
  "filter (\<lambda>t. \<not> P t) (remove_first P ts) = filter (\<lambda>t. \<not> P t) ts"
  by (induction ts) auto

lemma length_remove_first: "find P ts \<noteq> None \<Longrightarrow> length (remove_first P ts) + 1 = length ts"
  by (induction ts) auto

lemma maxOrder_numeric:
  "\<forall>t \<in> set ts. order_number (task_order t) \<noteq> None \<Longrightarrow> maxOrder ts = Some (next_order ts - 1)"
  by (auto simp: maxOrder_def next_order_def)

lemma post_task_ok:
  assumes "parseBody raw = Inr body" and "body \<noteq> JNull"
    and "readBoard (clock rt) st = (b, st1)"
    and "\<forall>t \<in> set (tasks b). order_number (task_order t) \<noteq> None"
  shows "post_task rt \<lparr>req_method = m, req_url = u, req_body = raw\<rparr> st
     = (Responded 201 (TaskReply (new_task rt body
          (next_order (filter (\<lambda>t. strict_eq (column t) (js_or (get_prop body ''column'') (JStr ''backlog''))) (tasks b)) - 1))),
        writeBoardSync (b\<lparr>tasks := tasks b @ [new_task rt body
          (next_order (filter (\<lambda>t. strict_eq (column t) (js_or (get_prop body ''column'') (JStr ''backlog''))) (tasks b)) - 1)]\<rparr>) st1)"
proof -
  have "maxOrder (filter (\<lambda>t. strict_eq (column t) (js_or (get_prop body ''column'') (JStr ''backlog''))) (tasks b))
      = Some (next_order (filter (\<lambda>t. strict_eq (column t) (js_or (get_prop body ''column'') (JStr ''backlog''))) (tasks b)) - 1)"
    by (rule maxOrder_numeric) (use assms(4) in auto)
  then show ?thesis using assms(1-3) by (simp add: post_task_def Let_def)
qed


lemma get_prop_object: "get_prop body k = Some c \<Longrightarrow> is_object body \<and> body \<noteq> JNull"
  by (cases body) simp_all

subsection \<open>Search\<close>

text \<open>
  C8 (evaluation at the failing input). \<open>GET /api/tasks/search?q=auth\<close> matches none of
  the routes of \<open>handleRoute\<close>: the URL fits the pattern of the task routes (with
  \<open>search?q=auth\<close> as the id) but the method is neither \<open>PATCH\<close> nor \<open>DELETE\<close>. The
  function resolves \<open>false\<close> without writing a response, whatever the board holds.
\<close>

theorem search_not_routed:
  "handleRoute rt \<lparr>req_method = ''GET'', req_url = ''/api/tasks/search?q=auth'', req_body = Empty\<rparr> st
     = (NotHandled, st)"
  by (simp add: handleRoute_def Let_def)

subsection \<open>Deleting a task\<close>

text \<open>
  C4 (counterexample). On the board of scenario S1 (\<open>a1\<close> blocks \<open>b2\<close>),
  \<open>DELETE /api/tasks/b2\<close> answers 200 and leaves \<open>a1\<close> on the board with its ref to the
  deleted \<open>b2\<close>.
\<close>

theorem delete_leaves_dangling_ref:
  "fst (handleRoute sample_runtime
          \<lparr>req_method = ''DELETE'', req_url = ''/api/tasks/b2'', req_body = Empty\<rparr> linked_store)
     = Responded 200 OkReply
   \<and> map (\<lambda>t. (task_id t, refs t))
         (stored_tasks (snd (handleRoute sample_runtime
            \<lparr>req_method = ''DELETE'', req_url = ''/api/tasks/b2'', req_body = Empty\<rparr> linked_store)))
     = [(''a1'', [TaskRef ''b2'' Blocks])]"
  by (simp add: handleRoute_def Let_def patchMatch_def task_segments_def delete_task_def
      readBoard_def linked_store_def store_of_def sample_task_def has_id_def writeBoardSync_def
      stored_tasks_def defaultBoard_def)

text \<open>
  C4 (amended). For every board and every task id present in it, \<open>DELETE /api/tasks/:id\<close>
  answers 200 and writes the board without the first task that has this id: one task
  fewer, and every other task exactly as it was, refs included.
\<close>

theorem delete_removes_only_the_task:
  assumes "board_file st = Some b" and "no_slash i" and "i \<in> set (map task_id (tasks b))"
  shows "handleRoute rt \<lparr>req_method = ''DELETE'', req_url = ''/api/tasks/'' @ i, req_body = body\<rparr> st
           = (Responded 200 OkReply,
              writeBoardSync (b\<lparr>tasks := remove_first (has_id i) (tasks b)\<rparr>) st)
       \<and> filter (\<lambda>t. \<not> has_id i t) (remove_first (has_id i) (tasks b))
           = filter (\<lambda>t. \<not> has_id i t) (tasks b)
       \<and> length (remove_first (has_id i) (tasks b)) + 1 = length (tasks b)"
proof -
  have f: "find (has_id i) (tasks b) \<noteq> None"
    using assms(3) find_has_id[of i "tasks b"] by auto
  have ne: "''/api/tasks/'' @ i \<noteq> ''/api/board''" by simp
  have r: "handleRoute rt \<lparr>req_method = ''DELETE'', req_url = ''/api/tasks/'' @ i, req_body = body\<rparr> st
             = delete_task rt i st"
    using patchMatch_id[OF assms(2)] by (simp add: handleRoute_def Let_def)
  have d: "delete_task rt i st
             = (Responded 200 OkReply,
                writeBoardSync (b\<lparr>tasks := remove_first (has_id i) (tasks b)\<rparr>) st)"
    using f assms(1) by (auto simp: delete_task_def readBoard_def split: option.splits)
  have l: "length (remove_first (has_id i) (tasks b)) + 1 = length (tasks b)"
    by (rule length_remove_first[OF f])
  show ?thesis using r d l filter_remove_first[of "has_id i" "tasks b"] by simp
qed

theorem delete_removes_only_the_task_witness:
  "board_file linked_store = Some ((defaultBoard ''2024-12-31T00:00:00.000Z'')\<lparr>tasks := stored_tasks linked_store\<rparr>)
   \<and> no_slash ''b2'' \<and> ''b2'' \<in> set (map task_id (stored_tasks linked_store))
   \<and> fst (handleRoute sample_runtime
            \<lparr>req_method = ''DELETE'', req_url = ''/api/tasks/'' @ ''b2'', req_body = Empty\<rparr> linked_store)
       = Responded 200 OkReply
   \<and> filter (\<lambda>t. \<not> has_id ''b2'' t) (remove_first (has_id ''b2'') (stored_tasks linked_store))
       = filter (\<lambda>t. \<not> has_id ''b2'' t) (stored_tasks linked_store)"
proof -
  let ?b = "(defaultBoard ''2024-12-31T00:00:00.000Z'')\<lparr>tasks := stored_tasks linked_store\<rparr>"
  have f: "board_file linked_store = Some ?b"
    by (simp add: linked_store_def store_of_def stored_tasks_def)
  have i: "no_slash ''b2''" "''b2'' \<in> set (map task_id (tasks ?b))"
    by (simp_all add: no_slash_def linked_store_def store_of_def stored_tasks_def sample_task_def)
  have ts: "tasks ?b = stored_tasks linked_store" by simp
  from delete_removes_only_the_task[OF f i, of sample_runtime Empty]
  show ?thesis using f i unfolding ts by simp
qed

subsection \<open>Column values\<close>

text \<open>
  C5 (counterexample). A \<open>POST /api/tasks\<close> with \<open>{"column": "bogus"}\<close> is answered 201
  and the task is written with column \<open>bogus\<close>; a \<open>PATCH /api/tasks/a1\<close> with the same body
  writes \<open>bogus\<close> into the column of \<open>a1\<close>.
\<close>

theorem unknown_column_accepted:
  "fst (handleRoute sample_runtime
          \<lparr>req_method = ''POST'', req_url = ''/api/tasks'', req_body = bogus_body\<rparr> empty_store)
     = Responded 201 (TaskReply (new_task sample_runtime (JObj [(''column'', JStr ''bogus'')]) 0))
   \<and> map column (stored_tasks (snd (handleRoute sample_runtime
          \<lparr>req_method = ''POST'', req_url = ''/api/tasks'', req_body = bogus_body\<rparr> empty_store)))
     = [JStr ''bogus'']
   \<and> map column (stored_tasks (snd (handleRoute sample_runtime
          \<lparr>req_method = ''PATCH'', req_url = ''/api/tasks/a1'', req_body = bogus_body\<rparr> linked_store)))
     = [JStr ''bogus'', JStr ''backlog'']"
  by (simp add: handleRoute_def Let_def post_task_def patch_task_def parseBody_def readBoard_def
      bogus_body_def empty_store_def defaultBoard_def maxOrder_def writeBoardSync_def
      stored_tasks_def new_task_def linked_store_def store_of_def sample_task_def has_id_def
      patchMatch_def task_segments_def apply_patch_def)

text \<open>
  C5 (amended). The column of a request is stored unchecked. For every JSON object body
  with a \<open>column\<close> value \<open>c\<close>: a \<open>POST /api/tasks\<close> (with \<open>c\<close> truthy, on a board whose
  orders are numbers) answers 201 and writes the board with a new task whose column is
  \<open>c\<close>; a \<open>PATCH /api/tasks/:id\<close> on an existing task answers 200 and writes the board
  with the column of that task set to \<open>c\<close>.
\<close>

theorem column_stored_unchecked:
  assumes "readBoard (clock rt) st = (b, st1)" and "get_prop body ''column'' = Some c"
  shows "(truthy c \<and> (\<forall>t \<in> set (tasks b). order_number (task_order t) \<noteq> None) \<longrightarrow>
            (\<exists>t. handleRoute rt \<lparr>req_method = ''POST'', req_url = ''/api/tasks'', req_body = Json body\<rparr> st
                   = (Responded 201 (TaskReply t), writeBoardSync (b\<lparr>tasks := tasks b @ [t]\<rparr>) st1)
                \<and> column t = c))
       \<and> (no_slash i \<and> i \<in> set (map task_id (tasks b)) \<longrightarrow>
            (\<exists>t. handleRoute rt
                     \<lparr>req_method = ''PATCH'', req_url = ''/api/tasks/'' @ i, req_body = Json body\<rparr> st
                   = (Responded 200 (TaskReply t),
                      writeBoardSync (b\<lparr>tasks := update_first (has_id i) (\<lambda>_. t) (tasks b)\<rparr>) st1)
                \<and> column t = c))"
proof (intro conjI impI)
  assume a: "truthy c \<and> (\<forall>t \<in> set (tasks b). order_number (task_order t) \<noteq> None)"
  have p: "parseBody (Json body) = Inr body" by (simp add: parseBody_def)
  have nn: "body \<noteq> JNull" using get_prop_object[OF assms(2)] by simp
  from a have n: "\<forall>t \<in> set (tasks b). order_number (task_order t) \<noteq> None" by simp
  show "\<exists>t. handleRoute rt \<lparr>req_method = ''POST'', req_url = ''/api/tasks'', req_body = Json body\<rparr> st
                   = (Responded 201 (TaskReply t), writeBoardSync (b\<lparr>tasks := tasks b @ [t]\<rparr>) st1)
                \<and> column t = c"
    unfolding handleRoute_def Let_def
    using post_task_ok[OF p nn assms(1) n] a assms(2)
    by (simp add: new_task_def)
next
  assume a: "no_slash i \<and> i \<in> set (map task_id (tasks b))"
  then obtain t0 where f: "find (has_id i) (tasks b) = Some t0"
    using find_has_id[of i "tasks b"] by auto
  have r: "handleRoute rt \<lparr>req_method = ''PATCH'', req_url = ''/api/tasks/'' @ i, req_body = Json body\<rparr> st
             = patch_task rt i \<lparr>req_method = ''PATCH'', req_url = ''/api/tasks/'' @ i, req_body = Json body\<rparr> st"
    using a patchMatch_id[of i] by (simp add: handleRoute_def Let_def)
  show "\<exists>t. handleRoute rt
                     \<lparr>req_method = ''PATCH'', req_url = ''/api/tasks/'' @ i, req_body = Json body\<rparr> st
                   = (Responded 200 (TaskReply t),
                      writeBoardSync (b\<lparr>tasks := update_first (has_id i) (\<lambda>_. t) (tasks b)\<rparr>) st1)
                \<and> column t = c"
    unfolding r using f assms get_prop_object[OF assms(2)]
    by (simp add: patch_task_def parseBody_def Let_def apply_patch_def)
qed

theorem column_stored_unchecked_witness:
  "readBoard (clock sample_runtime) linked_store
     = ((defaultBoard ''2024-12-31T00:00:00.000Z'')\<lparr>tasks := stored_tasks linked_store\<rparr>, linked_store)
   \<and> get_prop (JObj [(''column'', JStr ''bogus'')]) ''column'' = Some (JStr ''bogus'')
   \<and> truthy (JStr ''bogus'')
   \<and> numeric_orders linked_store
   \<and> no_slash ''a1'' \<and> ''a1'' \<in> set (map task_id (stored_tasks linked_store))
   \<and> (\<exists>t. fst (handleRoute sample_runtime
                  \<lparr>req_method = ''POST'', req_url = ''/api/tasks'', req_body = bogus_body\<rparr> linked_store)
             = Responded 201 (TaskReply t) \<and> column t = JStr ''bogus'')
   \<and> (\<exists>t. fst (handleRoute sample_runtime
                  \<lparr>req_method = ''PATCH'', req_url = ''/api/tasks/'' @ ''a1'', req_body = bogus_body\<rparr>
                  linked_store)
             = Responded 200 (TaskReply t) \<and> column t = JStr ''bogus'')"
proof -
  let ?b = "(defaultBoard ''2024-12-31T00:00:00.000Z'')\<lparr>tasks := stored_tasks linked_store\<rparr>"
  have r: "readBoard (clock sample_runtime) linked_store = (?b, linked_store)"
    by (simp add: readBoard_def linked_store_def store_of_def stored_tasks_def)
  have g: "get_prop (JObj [(''column'', JStr ''bogus'')]) ''column'' = Some (JStr ''bogus'')"
    by simp
  have n: "\<forall>t \<in> set (tasks ?b). order_number (task_order t) \<noteq> None"
    by (simp add: linked_store_def store_of_def stored_tasks_def sample_task_def)
  have i: "no_slash ''a1''" "''a1'' \<in> set (map task_id (tasks ?b))"
    by (simp_all add: no_slash_def linked_store_def store_of_def stored_tasks_def sample_task_def)
  have ts: "tasks ?b = stored_tasks linked_store" by simp
  have t: "truthy (JStr ''bogus'')" by simp
  from column_stored_unchecked[OF r g, of "''a1''"] n i t
  have "(\<exists>t. handleRoute sample_runtime
                 \<lparr>req_method = ''POST'', req_url = ''/api/tasks'', req_body = bogus_body\<rparr> linked_store
               = (Responded 201 (TaskReply t), writeBoardSync (?b\<lparr>tasks := tasks ?b @ [t]\<rparr>) linked_store)
            \<and> column t = JStr ''bogus'')
      \<and> (\<exists>t. handleRoute sample_runtime
                 \<lparr>req_method = ''PATCH'', req_url = ''/api/tasks/'' @ ''a1'', req_body = bogus_body\<rparr>
                 linked_store
               = (Responded 200 (TaskReply t),
                  writeBoardSync (?b\<lparr>tasks := update_first (has_id ''a1'') (\<lambda>_. t) (tasks ?b)\<rparr>) linked_store)
            \<and> column t = JStr ''bogus'')"
    unfolding bogus_body_def by blast
  then have "(\<exists>t. fst (handleRoute sample_runtime
                  \<lparr>req_method = ''POST'', req_url = ''/api/tasks'', req_body = bogus_body\<rparr> linked_store)
             = Responded 201 (TaskReply t) \<and> column t = JStr ''bogus'')
   \<and> (\<exists>t. fst (handleRoute sample_runtime
                  \<lparr>req_method = ''PATCH'', req_url = ''/api/tasks/'' @ ''a1'', req_body = bogus_body\<rparr>
                  linked_store)
             = Responded 200 (TaskReply t) \<and> column t = JStr ''bogus'')"
    by (metis fst_conv)
  moreover have "numeric_orders linked_store" using n by (simp add: numeric_orders_def)
  ultimately show ?thesis using r g i t unfolding ts by blast
qed

subsection \<open>Creating a task\<close>





section \<open>Ref endpoints: results\<close>






lemma inverse_inverse [simp]: "inverseType (inverseType k) = k"
  by (cases k) simp_all























lemma ref_type_of_kind_name [simp]: "ref_type_of (JStr (kind_name k)) = Some k"
  by (cases k) (simp_all add: ref_type_of_def kind_name_def)

lemma kind_name_truthy [simp]: "kind_name k \<noteq> []"
  by (cases k) (simp_all add: kind_name_def)


lemma stored_tasks_write [simp]: "stored_tasks (writeBoardSync b st) = tasks b"
  by (simp add: stored_tasks_def writeBoardSync_def)











section \<open>File context: results\<close>




















end
